theory Spec2Isabelle
  imports Main "HOL-Library.Multiset"
begin

section \<open>Workshop chat: comment store, catch-up watermark and history exchange\<close>

text \<open>
  A shallow embedding of \<^verbatim>\<open>gui/src/app/WorkshopChat/WorkshopChat.tsx\<close>: the reducer
  \<^verbatim>\<open>chatCommentsReducer\<close>, the inbound message handler registered with
  \<^verbatim>\<open>onMessage\<close>, the effect that advances the caught-up timestamp,
  \<^verbatim>\<open>handleClearAllComments\<close>, \<^verbatim>\<open>getCaughtUpTimestamp\<close> and
  \<^verbatim>\<open>setCaughtUpTimestamp\<close>.

  Conventions of the model.
  \<^item> A JavaScript number is an \<open>int\<close> (epoch milliseconds) or \<open>NaN\<close>; fractions,
    infinities and the loss of precision beyond \<open>2^53\<close> are not modelled. Where a
    property depends on how a number is written as a string and read back, it is
    stated for the safe integers, which JavaScript represents exactly.
  \<^item> \<^verbatim>\<open>Date.now()\<close> is the parameter \<open>now\<close> of each operation.
  \<^item> What the JavaScript host provides and the repository does not define
    (\<^verbatim>\<open>JSON.parse\<close>, the length of \<^verbatim>\<open>JSON.stringify\<close>, the conversion of
    strings and objects to numbers, the string of a number that is not a safe
    integer) is a field of the record \<open>host\<close>.
  \<^item> An exception is a value of type \<open>error\<close>.
\<close>

subsection \<open>Values\<close>

datatype json =
    JNull
  | JBool bool
  | JNum int
  | JStr string
  | JArr "json list"
  | JObj "(string \<times> json) list"

datatype number = Number int | NaN

datatype error = SyntaxError | TypeError | StorageError | Untyped

text \<open>
  \<open>getProp v k\<close> is the property read \<^verbatim>\<open>v.k\<close> on a decoded payload, for the
  property names the program reads (\<^verbatim>\<open>type\<close>, \<^verbatim>\<open>userName\<close>, \<^verbatim>\<open>comment\<close>,
  \<^verbatim>\<open>startTimestamp\<close>, \<^verbatim>\<open>comments\<close>): reading a property of \<^verbatim>\<open>null\<close> throws a
  TypeError, an object gives the value bound to the key or \<^verbatim>\<open>undefined\<close> (\<open>None\<close>),
  and every other value gives \<^verbatim>\<open>undefined\<close>.
\<close>

fun getProp :: "json \<Rightarrow> string \<Rightarrow> error + json option" where
  "getProp JNull k = Inl TypeError"
| "getProp (JObj kvs) k = Inr (map_of kvs k)"
| "getProp (JBool b) k = Inr None"
| "getProp (JNum n) k = Inr None"
| "getProp (JStr s) k = Inr None"
| "getProp (JArr vs) k = Inr None"

record ChatMessage =
  systemSignature :: string
  senderPublicKey :: string
  timestamp :: int
  messageJson :: string

text \<open>
  The type \<^verbatim>\<open>ChatComment\<close>. Its fields \<^verbatim>\<open>senderPublicKey\<close> and \<^verbatim>\<open>timestamp\<close>
  carry the prefix \<open>c_\<close>, the names being those of \<open>ChatMessage\<close>. \<^verbatim>\<open>userName\<close>
  and \<^verbatim>\<open>comment\<close> hold whatever the decoded payload has under these names, which
  may be \<^verbatim>\<open>undefined\<close> (\<open>None\<close>).
\<close>

record ChatComment =
  commentId :: string
  c_senderPublicKey :: string
  userName :: "json option"
  c_timestamp :: int
  comment :: "json option"
  chatMessage :: ChatMessage

datatype ChatCommentAction =
    Add ChatMessage
  | AddMultiple "ChatMessage list"
  | Clear

record host =
  JSON_parse :: "string \<Rightarrow> json option"
  JSON_stringify_length :: "ChatMessage \<Rightarrow> nat"
  coerceToNumber :: "json \<Rightarrow> number"
  Number_toString_unsafe :: "int \<Rightarrow> nat list"

subsection \<open>The reducer\<close>

definition expireTimeMsec :: int where
  "expireTimeMsec = 1000 * 60 * 60 * 1"

text \<open>
  The case \<^verbatim>\<open>"add"\<close>. \<^verbatim>\<open>JSON.parse\<close> throws a SyntaxError on a string that is not
  JSON (\<open>JSON_parse h s = None\<close>). \<^verbatim>\<open>Array.prototype.sort\<close> is stable, and the
  comparison function is the difference of two timestamps: it is \<open>sort_key\<close>.
\<close>

definition add :: "host \<Rightarrow> int \<Rightarrow> ChatComment list \<Rightarrow> ChatMessage \<Rightarrow> error + ChatComment list" where
  "add h now state m =
     (if timestamp m < now - expireTimeMsec then Inr state
      else case JSON_parse h (messageJson m) of
        None \<Rightarrow> Inl SyntaxError
      | Some msg \<Rightarrow>
          (case getProp msg ''userName'' of
             Inl e \<Rightarrow> Inl e
           | Inr u \<Rightarrow>
               (case getProp msg ''comment'' of
                  Inl e \<Rightarrow> Inl e
                | Inr t \<Rightarrow>
                    (let new = \<lparr> commentId = systemSignature m,
                                  c_senderPublicKey = senderPublicKey m,
                                  userName = u,
                                  c_timestamp = timestamp m,
                                  comment = t,
                                  chatMessage = m \<rparr>
                     in case find (\<lambda>c. commentId c = commentId new) state of
                          Some existing \<Rightarrow> Inr state
                        | None \<Rightarrow> Inr (sort_key c_timestamp (state @ [new]))))))"

fun addMultiple :: "host \<Rightarrow> int \<Rightarrow> ChatComment list \<Rightarrow> ChatMessage list \<Rightarrow> error + ChatComment list" where
  "addMultiple h now s [] = Inr s"
| "addMultiple h now s (m # ms) =
     (case add h now s m of
        Inl e \<Rightarrow> Inl e
      | Inr s' \<Rightarrow> addMultiple h now s' ms)"

definition chatCommentsReducer ::
  "host \<Rightarrow> int \<Rightarrow> ChatComment list \<Rightarrow> ChatCommentAction \<Rightarrow> error + ChatComment list" where
  "chatCommentsReducer h now state action =
     (case action of
        Add m \<Rightarrow> add h now state m
      | AddMultiple ms \<Rightarrow> addMultiple h now state ms
      | Clear \<Rightarrow> Inr [])"

text \<open>
  The store states that a sequence of actions builds from the initial state \<open>[]\<close> of
  \<^verbatim>\<open>useReducer\<close>; each action is reduced at its own time.
\<close>

inductive reachable :: "host \<Rightarrow> ChatComment list \<Rightarrow> bool" for h :: host where
  initial: "reachable h []"
| step: "reachable h s \<Longrightarrow> chatCommentsReducer h now s a = Inr s' \<Longrightarrow> reachable h s'"

subsection \<open>Numbers, \<^verbatim>\<open>parseInt\<close> and \<^verbatim>\<open>toString\<close>\<close>

text \<open>The comparisons \<^verbatim>\<open><\<close> and \<^verbatim>\<open>>\<close> on numbers: false when a side is \<open>NaN\<close>.\<close>

fun num_lt :: "number \<Rightarrow> number \<Rightarrow> bool" where
  "num_lt (Number a) (Number b) = (a < b)"
| "num_lt NaN y = False"
| "num_lt x NaN = False"

fun num_gt :: "number \<Rightarrow> number \<Rightarrow> bool" where
  "num_gt (Number a) (Number b) = (a > b)"
| "num_gt NaN y = False"
| "num_gt x NaN = False"

text \<open>
  The conversion that \<^verbatim>\<open>>\<close> applies to an operand that is not a number:
  \<^verbatim>\<open>undefined\<close> is \<open>NaN\<close>, \<^verbatim>\<open>null\<close> is 0, a boolean is 0 or 1; strings, arrays
  and objects are converted by the host.
\<close>

fun ToNumber :: "host \<Rightarrow> json option \<Rightarrow> number" where
  "ToNumber h None = NaN"
| "ToNumber h (Some JNull) = Number 0"
| "ToNumber h (Some (JBool b)) = Number (if b then 1 else 0)"
| "ToNumber h (Some (JNum n)) = Number n"
| "ToNumber h (Some (JStr s)) = coerceToNumber h (JStr s)"
| "ToNumber h (Some (JArr vs)) = coerceToNumber h (JArr vs)"
| "ToNumber h (Some (JObj kvs)) = coerceToNumber h (JObj kvs)"

text \<open>
  A string kept in \<^verbatim>\<open>localStorage\<close> is a list of UTF-16 code units, as a JavaScript
  string is; \<open>ascii s\<close> is the code units of a string \<open>s\<close> of ASCII characters.
\<close>

type_synonym codeUnits = "nat list"

definition ascii :: "string \<Rightarrow> codeUnits" where
  "ascii s = map of_char s"

text \<open>
  \<^verbatim>\<open>parseInt(s)\<close> with no radix: leading white space is dropped, then an optional
  sign, then the prefix \<^verbatim>\<open>0x\<close> or \<^verbatim>\<open>0X\<close> selects radix 16, then the longest prefix
  of digits of the radix is read; with no digit the result is \<open>NaN\<close>. White space is
  what ECMAScript calls \<^verbatim>\<open>WhiteSpace\<close> and \<^verbatim>\<open>LineTerminator\<close>: TAB, LF, VT, FF, CR,
  the space, the no-break space U+00A0, U+1680, U+2000 to U+200A, U+2028, U+2029,
  U+202F, U+205F, U+3000 and U+FEFF.
\<close>

definition isWhiteSpace :: "nat \<Rightarrow> bool" where
  "isWhiteSpace c =
     ((9 \<le> c \<and> c \<le> 13) \<or> c = 32 \<or> c = 160 \<or> c = 5760 \<or> (8192 \<le> c \<and> c \<le> 8202) \<or>
      c = 8232 \<or> c = 8233 \<or> c = 8239 \<or> c = 8287 \<or> c = 12288 \<or> c = 65279)"

definition digitValue :: "nat \<Rightarrow> nat option" where
  "digitValue c =
     (if 48 \<le> c \<and> c \<le> 57 then Some (c - 48)
      else if 97 \<le> c \<and> c \<le> 102 then Some (c - 87)
      else if 65 \<le> c \<and> c \<le> 70 then Some (c - 55)
      else None)"

definition isRadixDigit :: "nat \<Rightarrow> nat \<Rightarrow> bool" where
  "isRadixDigit R c = (case digitValue c of None \<Rightarrow> False | Some d \<Rightarrow> d < R)"

definition digitOf :: "nat \<Rightarrow> nat" where
  "digitOf c = (case digitValue c of None \<Rightarrow> 0 | Some d \<Rightarrow> d)"

text \<open>The integer that a string of digits of radix \<open>R\<close> denotes.\<close>

definition radixValue :: "nat \<Rightarrow> codeUnits \<Rightarrow> nat" where
  "radixValue R Z = foldl (\<lambda>acc c. acc * R + digitOf c) 0 Z"

text \<open>The code units 43, 45, 48, 88 and 120 are \<^verbatim>\<open>+\<close>, \<^verbatim>\<open>-\<close>, \<^verbatim>\<open>0\<close>, \<^verbatim>\<open>X\<close> and \<^verbatim>\<open>x\<close>.\<close>

definition parseInt :: "codeUnits \<Rightarrow> number" where
  "parseInt inputString =
     (let S = dropWhile isWhiteSpace inputString;
          sign = (case S of c # rest \<Rightarrow> (if c = 45 then - 1 else 1) | [] \<Rightarrow> (1 :: int));
          S1 = (case S of c # rest \<Rightarrow> (if c = 43 \<or> c = 45 then rest else S) | [] \<Rightarrow> S);
          hex = (take 2 S1 = [48, 120] \<or> take 2 S1 = [48, 88]);
          R = (if hex then 16 else 10);
          S2 = (if hex then drop 2 S1 else S1);
          Z = takeWhile (isRadixDigit R) S2
      in if Z = [] then NaN
         else Number (sign * int (radixValue R Z)))"

text \<open>
  \<^verbatim>\<open>Number.prototype.toString\<close> on an integer. For a safe integer, of absolute value
  at most \<^verbatim>\<open>Number.MAX_SAFE_INTEGER\<close>, it is the decimal digits, \<^verbatim>\<open>-\<close> first when
  negative. Beyond the safe integers JavaScript prints the shortest digits that read
  back as the same double, and from \<open>10^21\<close> on it prints them in exponent notation
  (\<^verbatim>\<open>1e+21\<close>): that string is the host's \<open>Number_toString_unsafe\<close>.
\<close>

definition MAX_SAFE_INTEGER :: int where
  "MAX_SAFE_INTEGER = 9007199254740991"

definition digitChar :: "nat \<Rightarrow> nat" where
  "digitChar d = 48 + d"

fun digits :: "nat \<Rightarrow> codeUnits" where
  "digits n = (if n < 10 then [digitChar n] else digits (n div 10) @ [digitChar (n mod 10)])"

definition toString :: "host \<Rightarrow> int \<Rightarrow> codeUnits" where
  "toString h n =
     (if \<bar>n\<bar> \<le> MAX_SAFE_INTEGER
      then (if n < 0 then 45 # digits (nat (- n)) else digits (nat n))
      else Number_toString_unsafe h n)"

subsection \<open>The caught-up timestamp in \<^verbatim>\<open>localStorage\<close>\<close>

text \<open>
  \<^verbatim>\<open>localStorage\<close> is either unavailable, and then \<^verbatim>\<open>getItem\<close> and \<^verbatim>\<open>setItem\<close>
  throw, or a map from keys to strings; \<^verbatim>\<open>getItem\<close> returns \<^verbatim>\<open>null\<close> (\<open>None\<close>) for a
  key that is not stored.
\<close>

datatype localStorage = Unavailable | Items "string \<Rightarrow> codeUnits option"

definition getItem :: "localStorage \<Rightarrow> string \<Rightarrow> error + codeUnits option" where
  "getItem ls k = (case ls of Unavailable \<Rightarrow> Inl StorageError | Items items \<Rightarrow> Inr (items k))"

definition setItem :: "localStorage \<Rightarrow> string \<Rightarrow> codeUnits \<Rightarrow> error + localStorage" where
  "setItem ls k v =
     (case ls of Unavailable \<Rightarrow> Inl StorageError | Items items \<Rightarrow> Inr (Items (items(k \<mapsto> v))))"

definition caughtUpKey :: string where
  "caughtUpKey = ''workshop-chat-caught-up-timestamp''"

definition oneDayAgo :: "int \<Rightarrow> int" where
  "oneDayAgo now = now - 1000 * 60 * 60 * 24"

text \<open>The body of the \<^verbatim>\<open>try\<close> block of \<^verbatim>\<open>getCaughtUpTimestamp\<close>; a string is truthy when it is not empty.\<close>

definition tryGetCaughtUpTimestamp :: "int \<Rightarrow> localStorage \<Rightarrow> error + number" where
  "tryGetCaughtUpTimestamp now ls =
     (case getItem ls caughtUpKey of
        Inl e \<Rightarrow> Inl e
      | Inr a \<Rightarrow>
          (case a of
             Some s \<Rightarrow> if s \<noteq> [] then Inr (parseInt s) else Inr (Number (oneDayAgo now))
           | None \<Rightarrow> Inr (Number (oneDayAgo now))))"

definition getCaughtUpTimestamp :: "int \<Rightarrow> localStorage \<Rightarrow> number" where
  "getCaughtUpTimestamp now ls =
     (case tryGetCaughtUpTimestamp now ls of
        Inl e \<Rightarrow> Number (oneDayAgo now)
      | Inr v \<Rightarrow> v)"

definition setCaughtUpTimestamp :: "host \<Rightarrow> localStorage \<Rightarrow> int \<Rightarrow> error + localStorage" where
  "setCaughtUpTimestamp h ls ts = setItem ls caughtUpKey (toString h ts)"

text \<open>
  The effect on \<^verbatim>\<open>chatComments\<close> (the loop over the comments; the write to IndexedDB
  that follows it is asynchronous and not modelled), and \<^verbatim>\<open>handleClearAllComments\<close>
  (the deletion of the IndexedDB database is not modelled either): it returns the new
  \<^verbatim>\<open>localStorage\<close> and the actions it dispatches.
\<close>

fun caughtUpLoop :: "host \<Rightarrow> int \<Rightarrow> localStorage \<Rightarrow> ChatComment list \<Rightarrow> error + localStorage" where
  "caughtUpLoop h now ls [] = Inr ls"
| "caughtUpLoop h now ls (c # cs) =
     (if num_gt (Number (c_timestamp c)) (getCaughtUpTimestamp now ls)
      then (case setCaughtUpTimestamp h ls (c_timestamp c) of
              Inl e \<Rightarrow> Inl e
            | Inr ls' \<Rightarrow> caughtUpLoop h now ls' cs)
      else caughtUpLoop h now ls cs)"

definition chatCommentsEffect ::
  "host \<Rightarrow> bool \<Rightarrow> int \<Rightarrow> localStorage \<Rightarrow> ChatComment list \<Rightarrow> error + localStorage" where
  "chatCommentsEffect h initialLoadComplete now ls chatComments =
     (if \<not> initialLoadComplete then Inr ls else caughtUpLoop h now ls chatComments)"

definition handleClearAllComments ::
  "host \<Rightarrow> int \<Rightarrow> localStorage \<Rightarrow> error + (localStorage \<times> ChatCommentAction list)" where
  "handleClearAllComments h now ls =
     (case setCaughtUpTimestamp h ls now of
        Inl e \<Rightarrow> Inl e
      | Inr ls' \<Rightarrow> Inr (ls', [Clear]))"

subsection \<open>The inbound message handler\<close>

text \<open>
  What one run of the handler does: the actions it passes to \<^verbatim>\<open>chatCommentsDispatch\<close>,
  the payloads it passes to \<^verbatim>\<open>publish\<close> on the channel, both in order, and the
  exception that ends it, if any.
\<close>

datatype publication = History "ChatMessage list"

record handled =
  dispatched :: "ChatCommentAction list"
  published :: "publication list"
  thrown :: "error option"

text \<open>
  The responder to \<^verbatim>\<open>request-history\<close>: the inner loop fills \<^verbatim>\<open>toSend\<close> from index
  \<open>i\<close> on and returns the index it stops at; the outer loop publishes each batch that
  is not empty.
\<close>

function batchLoop ::
  "host \<Rightarrow> ChatComment list \<Rightarrow> json option \<Rightarrow> nat \<Rightarrow> nat \<Rightarrow> ChatMessage list \<Rightarrow> nat \<times> ChatMessage list" where
  "batchLoop h chatComments startTimestamp i size0 toSend =
     (if size0 < 10000 \<and> i < length chatComments then
        (let mm = chatMessage (chatComments ! i) in
         if num_gt (Number (timestamp mm)) (ToNumber h startTimestamp)
         then batchLoop h chatComments startTimestamp (i + 1)
                (size0 + JSON_stringify_length h mm) (toSend @ [mm])
         else batchLoop h chatComments startTimestamp (i + 1) size0 toSend)
      else (i, toSend))"
  by pat_completeness auto
termination
  by (relation "measure (\<lambda>(h, chatComments, startTimestamp, i, size0, toSend). length chatComments - i)") auto

lemma batchLoop_index:
  "batchLoop h cs st i size0 toSend = (i', out) \<Longrightarrow>
     i \<le> i' \<and> (i \<le> length cs \<longrightarrow> i' \<le> length cs) \<and> (size0 < 10000 \<and> i < length cs \<longrightarrow> i < i')"
proof (induction h cs st i size0 toSend arbitrary: i' out rule: batchLoop.induct)
  case (1 h cs st i size0 toSend)
  show ?case
  proof (cases "size0 < 10000 \<and> i < length cs")
    case False
    with "1.prems" show ?thesis by simp
  next
    case True
    show ?thesis
    proof (cases "num_gt (Number (timestamp (chatMessage (cs ! i)))) (ToNumber h st)")
      case yes: True
      from True yes "1.prems"
      have "batchLoop h cs st (i + 1) (size0 + JSON_stringify_length h (chatMessage (cs ! i)))
              (toSend @ [chatMessage (cs ! i)]) = (i', out)"
        by (simp add: Let_def)
      from "1.IH"(1) [OF True refl yes this] True show ?thesis by simp
    next
      case no: False
      from True no "1.prems"
      have "batchLoop h cs st (i + 1) size0 toSend = (i', out)"
        by (simp add: Let_def)
      from "1.IH"(2) [OF True refl no this] True show ?thesis by simp
    qed
  qed
qed

lemma batchLoop_advances:
  "i < length cs \<Longrightarrow> (i', out) = batchLoop h cs st i 0 [] \<Longrightarrow> length cs - i' < length cs - i"
  using batchLoop_index [of h cs st i 0 "[]" i' out] by auto

function sendLoop :: "host \<Rightarrow> ChatComment list \<Rightarrow> json option \<Rightarrow> nat \<Rightarrow> publication list" where
  "sendLoop h chatComments startTimestamp i =
     (if i < length chatComments then
        (case batchLoop h chatComments startTimestamp i 0 [] of
           (i', toSend) \<Rightarrow>
             (if length toSend > 0 then [History toSend] else [])
               @ sendLoop h chatComments startTimestamp i')
      else [])"
  by pat_completeness auto
termination
  by (relation "measure (\<lambda>(h, chatComments, startTimestamp, i). length chatComments - i)")
    (auto intro: batchLoop_advances)

declare batchLoop.simps [simp del] sendLoop.simps [simp del]

text \<open>The messages of a published payload.\<close>

fun comments_of :: "publication \<Rightarrow> ChatMessage list" where
  "comments_of (History toSend) = toSend"

text \<open>
  A member of \<^verbatim>\<open>msg.comments\<close> is used as a \<^verbatim>\<open>ChatMessage\<close>: an object with the
  three string fields and the numeric \<^verbatim>\<open>timestamp\<close>. Reading \<^verbatim>\<open>c.timestamp\<close> of
  \<^verbatim>\<open>null\<close> throws a TypeError; any other member that is not such an object is outside
  the typed model, and the loop stops there with \<open>Untyped\<close>.
\<close>

definition asChatMessage :: "json \<Rightarrow> ChatMessage option" where
  "asChatMessage c =
     (case c of
        JObj kvs \<Rightarrow>
          (case (map_of kvs ''systemSignature'', map_of kvs ''senderPublicKey'',
                 map_of kvs ''timestamp'', map_of kvs ''messageJson'') of
             (Some (JStr sg), Some (JStr pk), Some (JNum t), Some (JStr mj)) \<Rightarrow>
               Some \<lparr> systemSignature = sg, senderPublicKey = pk, timestamp = t, messageJson = mj \<rparr>
           | _ \<Rightarrow> None)
      | _ \<Rightarrow> None)"

fun historyLoop ::
  "int \<Rightarrow> localStorage \<Rightarrow> json list \<Rightarrow> ChatCommentAction list \<Rightarrow> ChatCommentAction list \<times> error option" where
  "historyLoop now ls [] acts = (acts, None)"
| "historyLoop now ls (c # cs) acts =
     (if c = JNull then (acts, Some TypeError)
      else case asChatMessage c of
        None \<Rightarrow> (acts, Some Untyped)
      | Some cm \<Rightarrow>
          (let ttt = getCaughtUpTimestamp now ls in
           if num_lt (Number (timestamp cm)) ttt then historyLoop now ls cs acts
           else historyLoop now ls cs (acts @ [Add cm])))"

text \<open>
  The handler, run with the \<^verbatim>\<open>chatComments\<close> its closure holds. \<^verbatim>\<open>forEach\<close> of a
  value that is not an array throws a TypeError.
\<close>

definition onMessage :: "host \<Rightarrow> int \<Rightarrow> localStorage \<Rightarrow> ChatComment list \<Rightarrow> ChatMessage \<Rightarrow> handled" where
  "onMessage h now ls chatComments m =
     (case JSON_parse h (messageJson m) of
        None \<Rightarrow> \<lparr> dispatched = [], published = [], thrown = Some SyntaxError \<rparr>
      | Some msg \<Rightarrow>
          (case getProp msg ''type'' of
             Inl e \<Rightarrow> \<lparr> dispatched = [], published = [], thrown = Some e \<rparr>
           | Inr ty \<Rightarrow>
               if ty = Some (JStr ''comment'') then
                 \<lparr> dispatched = [Add m], published = [], thrown = None \<rparr>
               else if ty = Some (JStr ''request-history'') then
                 (case getProp msg ''startTimestamp'' of
                    Inl e \<Rightarrow> \<lparr> dispatched = [], published = [], thrown = Some e \<rparr>
                  | Inr startTimestamp \<Rightarrow>
                      \<lparr> dispatched = [],
                        published = sendLoop h chatComments startTimestamp 0,
                        thrown = None \<rparr>)
               else if ty = Some (JStr ''history'') then
                 (case getProp msg ''comments'' of
                    Inl e \<Rightarrow> \<lparr> dispatched = [], published = [], thrown = Some e \<rparr>
                  | Inr (Some (JArr cs)) \<Rightarrow>
                      (case historyLoop now ls cs [] of
                         (acts, err) \<Rightarrow> \<lparr> dispatched = acts, published = [], thrown = err \<rparr>)
                  | Inr _ \<Rightarrow> \<lparr> dispatched = [], published = [], thrown = Some TypeError \<rparr>)
               else \<lparr> dispatched = [], published = [], thrown = None \<rparr>))"

text \<open>The dispatched actions are reduced in order at the next render.\<close>

fun applyDispatched ::
  "host \<Rightarrow> int \<Rightarrow> ChatComment list \<Rightarrow> ChatCommentAction list \<Rightarrow> error + ChatComment list" where
  "applyDispatched h now s [] = Inr s"
| "applyDispatched h now s (a # as) =
     (case chatCommentsReducer h now s a of
        Inl e \<Rightarrow> Inl e
      | Inr s' \<Rightarrow> applyDispatched h now s' as)"

subsection \<open>Concrete inputs\<close>

text \<open>
  A host, messages and stored comments for the examples below. The host decodes the
  payloads of the examples and takes every other string as not being JSON; it counts
  4000 characters for the envelope of a serialized message; the one number beyond the
  safe integers that the examples write is \<open>10^21\<close>, which JavaScript prints as
  \<^verbatim>\<open>1e+21\<close>.
\<close>

definition exampleNow :: int where
  "exampleNow = 1700000000000"

text \<open>A JSON string literal: \<^verbatim>\<open>"\<close> and the backslash are escaped.\<close>

definition quoted :: "string \<Rightarrow> string" where
  \<open>quoted s =
     ''"'' @ concat (map (\<lambda>c. if c = CHR ''"'' \<or> c = CHR 0x5C then [CHR 0x5C, c] else [c]) s) @ ''"''\<close>

definition exampleHistoryJson :: string where
  \<open>exampleHistoryJson =
     ''{"type":"history","comments":[{"systemSignature":"sig2","senderPublicKey":"pk2","timestamp":1699999990000,"messageJson":''
     @ quoted ''{"type":"request-history","startTimestamp":1699999000000}''
     @ ''},{"systemSignature":"sig3","senderPublicKey":"pk3","timestamp":1699999000000,"messageJson":''
     @ quoted ''{"type":"comment","userName":"ann","comment":"hi"}''
     @ ''}]}''\<close>

definition exampleHost :: host where
  \<open>exampleHost =
     \<lparr> JSON_parse = (\<lambda>s.
          if s = ''{"type":"comment","userName":"ann","comment":"hi"}'' then
            Some (JObj [(''type'', JStr ''comment''), (''userName'', JStr ''ann''),
                        (''comment'', JStr ''hi'')])
          else if s = ''{"type":"request-history","startTimestamp":1699999000000}'' then
            Some (JObj [(''type'', JStr ''request-history''), (''startTimestamp'', JNum 1699999000000)])
          else if s = ''{"type":"typing"}'' then
            Some (JObj [(''type'', JStr ''typing'')])
          else if s = exampleHistoryJson then
            Some (JObj [(''type'', JStr ''history''),
                        (''comments'', JArr [
                           JObj [(''systemSignature'', JStr ''sig2''), (''senderPublicKey'', JStr ''pk2''),
                                 (''timestamp'', JNum 1699999990000),
                                 (''messageJson'', JStr ''{"type":"request-history","startTimestamp":1699999000000}'')],
                           JObj [(''systemSignature'', JStr ''sig3''), (''senderPublicKey'', JStr ''pk3''),
                                 (''timestamp'', JNum 1699999000000),
                                 (''messageJson'', JStr ''{"type":"comment","userName":"ann","comment":"hi"}'')]])])
          else None),
       JSON_stringify_length = (\<lambda>m. 4000 + length (messageJson m)),
       coerceToNumber = (\<lambda>v. NaN),
       Number_toString_unsafe = (\<lambda>n. if n = 10 ^ 21 then ascii ''1e+21'' else []) \<rparr>\<close>

definition exampleComment :: "string \<Rightarrow> int \<Rightarrow> ChatMessage" where
  \<open>exampleComment sg t =
     \<lparr> systemSignature = sg, senderPublicKey = ''pk1'', timestamp = t,
       messageJson = ''{"type":"comment","userName":"ann","comment":"hi"}'' \<rparr>\<close>

definition exampleStored :: "string \<Rightarrow> int \<Rightarrow> ChatComment" where
  "exampleStored sg t =
     \<lparr> commentId = sg, c_senderPublicKey = ''pk1'', userName = Some (JStr ''ann''),
       c_timestamp = t, comment = Some (JStr ''hi''), chatMessage = exampleComment sg t \<rparr>"

definition exampleHistory :: ChatMessage where
  "exampleHistory =
     \<lparr> systemSignature = ''sigH'', senderPublicKey = ''pkH'', timestamp = 1699999999500,
       messageJson = exampleHistoryJson \<rparr>"

definition exampleNested :: ChatMessage where
  \<open>exampleNested =
     \<lparr> systemSignature = ''sig2'', senderPublicKey = ''pk2'', timestamp = 1699999990000,
       messageJson = ''{"type":"request-history","startTimestamp":1699999000000}'' \<rparr>\<close>

definition exampleOld :: ChatMessage where
  \<open>exampleOld =
     \<lparr> systemSignature = ''sig3'', senderPublicKey = ''pk3'', timestamp = 1699999000000,
       messageJson = ''{"type":"comment","userName":"ann","comment":"hi"}'' \<rparr>\<close>

definition exampleRequest :: ChatMessage where
  \<open>exampleRequest =
     \<lparr> systemSignature = ''sigR'', senderPublicKey = ''pkR'', timestamp = 1699999999900,
       messageJson = ''{"type":"request-history","startTimestamp":1699999000000}'' \<rparr>\<close>

definition exampleTyping :: ChatMessage where
  \<open>exampleTyping =
     \<lparr> systemSignature = ''sigT'', senderPublicKey = ''pkT'', timestamp = 1699999999900,
       messageJson = ''{"type":"typing"}'' \<rparr>\<close>

definition exampleMalformed :: ChatMessage where
  "exampleMalformed =
     \<lparr> systemSignature = ''sigM'', senderPublicKey = ''pkM'', timestamp = 1699999999900,
       messageJson = ''not json'' \<rparr>"

definition exampleStore :: "ChatComment list" where
  "exampleStore =
     [exampleStored ''s0'' 1699998000000, exampleStored ''s1'' 1699999100000,
      exampleStored ''s2'' 1699999200000, exampleStored ''s3'' 1699999300000,
      exampleStored ''s4'' 1699999400000]"

section \<open>Properties of the model\<close>

subsection \<open>The reducer: what \<open>add\<close> returns, and what it preserves\<close>

lemma add_result:
  assumes "add h now s m = Inr s'"
  shows "s' = s \<or>
    (\<exists>u t. \<not> timestamp m < now - expireTimeMsec \<and>
       (\<forall>c\<in>set s. commentId c \<noteq> systemSignature m) \<and>
       s' = sort_key c_timestamp
              (s @ [\<lparr> commentId = systemSignature m, c_senderPublicKey = senderPublicKey m,
                      userName = u, c_timestamp = timestamp m, comment = t, chatMessage = m \<rparr>]))"
proof (cases "timestamp m < now - expireTimeMsec")
  case True
  with assms show ?thesis by (simp add: add_def)
next
  case False
  from assms False obtain msg u t where
    "JSON_parse h (messageJson m) = Some msg"
    "getProp msg ''userName'' = Inr u" "getProp msg ''comment'' = Inr t"
    by (auto simp: add_def split: option.splits sum.splits)
  with assms False show ?thesis
    by (fastforce simp: add_def Let_def find_None_iff split: option.splits)
qed

lemma add_accepts:
  assumes "\<not> timestamp m < now - expireTimeMsec"
    and "JSON_parse h (messageJson m) = Some msg" and "msg \<noteq> JNull"
    and "\<forall>c\<in>set s. commentId c \<noteq> systemSignature m"
  shows "\<exists>u t. getProp msg ''userName'' = Inr u \<and> getProp msg ''comment'' = Inr t \<and>
           add h now s m = Inr (sort_key c_timestamp
             (s @ [\<lparr> commentId = systemSignature m, c_senderPublicKey = senderPublicKey m,
                     userName = u, c_timestamp = timestamp m, comment = t, chatMessage = m \<rparr>]))"
proof -
  obtain u t where ut: "getProp msg ''userName'' = Inr u" "getProp msg ''comment'' = Inr t"
    using assms(3) by (cases msg) auto
  have "find (\<lambda>c. commentId c = systemSignature m) s = None"
    using assms(4) by (simp add: find_None_iff)
  with ut assms(1,2) show ?thesis
    by (simp add: add_def)
qed

lemma add_sorted:
  "add h now s m = Inr s' \<Longrightarrow> sorted (map c_timestamp s) \<Longrightarrow> sorted (map c_timestamp s')"
  by (auto dest!: add_result)

lemma add_distinct:
  assumes "add h now s m = Inr s'" and "distinct (map commentId s)"
  shows "distinct (map commentId s')"
proof -
  from add_result [OF assms(1)] show ?thesis
  proof
    assume "s' = s"
    with assms(2) show ?thesis by simp
  next
    assume "\<exists>u t. \<not> timestamp m < now - expireTimeMsec \<and>
       (\<forall>c\<in>set s. commentId c \<noteq> systemSignature m) \<and>
       s' = sort_key c_timestamp
              (s @ [\<lparr> commentId = systemSignature m, c_senderPublicKey = senderPublicKey m,
                      userName = u, c_timestamp = timestamp m, comment = t, chatMessage = m \<rparr>])"
    then obtain new where fresh: "\<forall>c\<in>set s. commentId c \<noteq> commentId new"
      and s': "s' = sort_key c_timestamp (s @ [new])"
      by force
    have "mset (map commentId s') = mset (map commentId (s @ [new]))"
      by (simp add: s')
    moreover have "distinct (map commentId (s @ [new]))"
      using assms(2) fresh by auto
    ultimately show ?thesis
      by (metis mset_eq_imp_distinct_iff)
  qed
qed

lemma add_ids:
  "add h now s m = Inr s' \<Longrightarrow> commentId ` set s' \<subseteq> insert (systemSignature m) (commentId ` set s)"
  by (drule add_result) (auto simp del: sort_key_simps)

lemma add_twice:
  assumes "now1 \<le> now2"
  shows "(case add h now1 s m of Inl e \<Rightarrow> Inl e | Inr s' \<Rightarrow> add h now2 s' m) = add h now1 s m"
proof (cases "timestamp m < now1 - expireTimeMsec")
  case True
  with assms have "timestamp m < now2 - expireTimeMsec" by simp
  with True show ?thesis by (simp add: add_def)
next
  case False
  show ?thesis
  proof (cases "add h now1 s m")
    case (Inl e)
    then show ?thesis by simp
  next
    case (Inr s')
    have "add h now2 s' m = Inr s'"
      using Inr False
      by (auto simp: add_def Let_def find_None_iff find_Some_iff split: if_splits option.splits sum.splits)
    with Inr show ?thesis by simp
  qed
qed

lemma addMultiple_invariant:
  assumes "\<And>s m s'. P s \<Longrightarrow> add h now s m = Inr s' \<Longrightarrow> P s'"
  shows "P s \<Longrightarrow> addMultiple h now s ms = Inr s' \<Longrightarrow> P s'"
proof (induction ms arbitrary: s)
  case Nil
  then show ?case by simp
next
  case (Cons m ms)
  then show ?case using assms by (auto split: sum.splits)
qed

lemma addMultiple_ids:
  "addMultiple h now s ms = Inr s' \<Longrightarrow>
   commentId ` set s' \<subseteq> commentId ` set s \<union> systemSignature ` set ms"
proof (induction ms arbitrary: s)
  case Nil
  then show ?case by simp
next
  case (Cons m ms)
  then obtain s1 where 1: "add h now s m = Inr s1" "addMultiple h now s1 ms = Inr s'"
    by (auto split: sum.splits)
  from Cons.IH [OF 1(2)] add_ids [OF 1(1)] show ?case by auto
qed

lemma reducer_invariant:
  assumes "P []" and "\<And>now s m s'. P s \<Longrightarrow> add h now s m = Inr s' \<Longrightarrow> P s'"
  shows "P s \<Longrightarrow> chatCommentsReducer h now s a = Inr s' \<Longrightarrow> P s'"
  using assms addMultiple_invariant [of P h now s _ s']
  by (cases a) (auto simp: chatCommentsReducer_def)

lemma reachable_invariant:
  assumes "P []" and "\<And>now s m s'. P s \<Longrightarrow> add h now s m = Inr s' \<Longrightarrow> P s'"
  shows "reachable h s \<Longrightarrow> P s"
proof (induction rule: reachable.induct)
  case initial
  show ?case by (rule assms(1))
next
  case (step s now a s')
  then show ?case using reducer_invariant [of P h s now a s'] assms by blast
qed

lemma applyDispatched_Add:
  "applyDispatched h now s (map Add ms) = addMultiple h now s ms"
  by (induction ms arbitrary: s) (auto simp: chatCommentsReducer_def split: sum.splits)

subsection \<open>\<^verbatim>\<open>parseInt\<close>: what it reads, and that it reads back what \<^verbatim>\<open>toString\<close> writes\<close>

declare digits.simps [simp del]

lemma digitValue_digitChar: "d < 10 \<Longrightarrow> digitValue (digitChar d) = Some d"
  by (simp add: digitValue_def digitChar_def)

lemma isRadixDigit_digitChar: "d < 10 \<Longrightarrow> isRadixDigit 10 (digitChar d)"
  by (simp add: isRadixDigit_def digitValue_digitChar)

lemma digitOf_digitChar: "d < 10 \<Longrightarrow> digitOf (digitChar d) = d"
  by (simp add: digitOf_def digitValue_digitChar)

lemma decimal_digit_plain:
  assumes "isRadixDigit 10 c"
  shows "\<not> isWhiteSpace c" "c \<noteq> 45" "c \<noteq> 43" "c \<noteq> 120" "c \<noteq> 88" "48 \<le> c" "c \<le> 57"
  using assms
  by (auto simp: isRadixDigit_def digitValue_def isWhiteSpace_def split: if_splits)

lemma hex_digit_plain:
  assumes "isRadixDigit 16 c"
  shows "c \<noteq> 120" "c \<noteq> 88"
  using assms
  by (auto simp: isRadixDigit_def digitValue_def split: if_splits)

lemma sign_not_white: "\<not> isWhiteSpace 43" "\<not> isWhiteSpace 45"
  by (simp_all add: isWhiteSpace_def)

lemma digits_decimal: "c \<in> set (digits n) \<Longrightarrow> isRadixDigit 10 c"
proof (induction n arbitrary: c rule: digits.induct)
  case (1 n)
  show ?case
  proof (cases "n < 10")
    case True
    with "1.prems" show ?thesis
      by (simp add: digits.simps [of n] isRadixDigit_digitChar)
  next
    case False
    with "1.prems" "1.IH" show ?thesis
      by (auto simp: digits.simps [of n] isRadixDigit_digitChar)
  qed
qed

lemma digits_not_Nil: "digits n \<noteq> []"
  by (subst digits.simps) simp

lemma digits_value: "radixValue 10 (digits n) = n"
proof (induction n rule: digits.induct)
  case (1 n)
  show ?case
  proof (cases "n < 10")
    case True
    then show ?thesis by (simp add: radixValue_def digits.simps [of n] digitOf_digitChar)
  next
    case False
    with "1.IH" show ?thesis
      by (simp add: radixValue_def digits.simps [of n] digitOf_digitChar)
  qed
qed

text \<open>
  What \<^verbatim>\<open>parseInt\<close> does with white space \<open>ws\<close>, an optional sign \<open>sg\<close> and a tail
  that, when there is no sign, starts neither with white space nor with a sign.
\<close>

lemma parseInt_strip:
  assumes ws: "\<forall>c\<in>set ws. isWhiteSpace c"
    and sg: "sg = [] \<or> sg = [43] \<or> sg = [45]"
    and tail: "sg = [] \<Longrightarrow> (case tail of [] \<Rightarrow> True | c # _ \<Rightarrow> \<not> isWhiteSpace c \<and> c \<noteq> 43 \<and> c \<noteq> 45)"
  shows "parseInt (ws @ sg @ tail) =
     (let hex = (take 2 tail = [48, 120] \<or> take 2 tail = [48, 88]);
          R = (if hex then 16 else 10);
          Z = takeWhile (isRadixDigit R) (if hex then drop 2 tail else tail)
      in if Z = [] then NaN
         else Number ((if sg = [45] then - 1 else 1) * int (radixValue R Z)))"
proof -
  have d1: "dropWhile isWhiteSpace (ws @ sg @ tail) = dropWhile isWhiteSpace (sg @ tail)"
    using ws by (simp add: dropWhile_append2)
  from sg consider "sg = []" | "sg = [43]" | "sg = [45]" by blast
  then show ?thesis
  proof cases
    case 1
    with tail have t: "case tail of [] \<Rightarrow> True | c # _ \<Rightarrow> \<not> isWhiteSpace c \<and> c \<noteq> 43 \<and> c \<noteq> 45"
      by simp
    then have "dropWhile isWhiteSpace tail = tail"
      by (cases tail) simp_all
    with 1 d1 have S: "dropWhile isWhiteSpace (ws @ sg @ tail) = tail" by simp
    have sign: "(case tail of [] \<Rightarrow> (1 :: int) | c # rest \<Rightarrow> if c = 45 then - 1 else 1) = 1"
      using t by (cases tail) simp_all
    have S1: "(case tail of [] \<Rightarrow> tail | c # rest \<Rightarrow> if c = 43 \<or> c = 45 then rest else tail) = tail"
      using t by (cases tail) simp_all
    show ?thesis
      unfolding parseInt_def S
      by (simp only: Let_def sign S1) (simp add: 1)
  next
    case 2
    with d1 have S: "dropWhile isWhiteSpace (ws @ sg @ tail) = 43 # tail"
      by (simp add: sign_not_white)
    show ?thesis
      unfolding parseInt_def S
      by (simp add: Let_def 2)
  next
    case 3
    with d1 have S: "dropWhile isWhiteSpace (ws @ sg @ tail) = 45 # tail"
      by (simp add: sign_not_white)
    show ?thesis
      unfolding parseInt_def S
      by (simp add: Let_def 3)
  qed
qed

lemma parseInt_decimal_prefix:
  assumes ws: "\<forall>c\<in>set ws. isWhiteSpace c"
    and sg: "sg = [] \<or> sg = [43] \<or> sg = [45]"
    and ds: "ds \<noteq> []" "\<forall>c\<in>set ds. isRadixDigit 10 c"
    and rest: "case rest of [] \<Rightarrow> True | c # _ \<Rightarrow> \<not> isRadixDigit 10 c"
    and nohex: "\<not> (ds = [48] \<and> (case rest of [] \<Rightarrow> False | c # _ \<Rightarrow> c = 120 \<or> c = 88))"
  shows "parseInt (ws @ sg @ ds @ rest) =
           Number ((if sg = [45] then - 1 else 1) * int (radixValue 10 ds))"
proof -
  obtain d ds' where dd: "ds = d # ds'" using ds(1) by (cases ds) auto
  have d: "isRadixDigit 10 d" using ds(2) dd by simp
  have t: "case ds @ rest of [] \<Rightarrow> True | c # _ \<Rightarrow> \<not> isWhiteSpace c \<and> c \<noteq> 43 \<and> c \<noteq> 45"
    using decimal_digit_plain [OF d] dd by simp
  have nh: "take 2 (ds @ rest) \<noteq> [48, 120]" "take 2 (ds @ rest) \<noteq> [48, 88]"
  proof -
    show "take 2 (ds @ rest) \<noteq> [48, 120]"
    proof (cases ds')
      case Nil
      with dd nohex show ?thesis by (cases rest) auto
    next
      case (Cons e es)
      with ds(2) dd have "isRadixDigit 10 e" by simp
      from decimal_digit_plain(4) [OF this] Cons dd show ?thesis by simp
    qed
    show "take 2 (ds @ rest) \<noteq> [48, 88]"
    proof (cases ds')
      case Nil
      with dd nohex show ?thesis by (cases rest) auto
    next
      case (Cons e es)
      with ds(2) dd have "isRadixDigit 10 e" by simp
      from decimal_digit_plain(5) [OF this] Cons dd show ?thesis by simp
    qed
  qed
  have "takeWhile (isRadixDigit 10) rest = []"
    using rest by (cases rest) simp_all
  then have Z: "takeWhile (isRadixDigit 10) (ds @ rest) = ds"
    using ds(2) by (simp add: takeWhile_append2)
  from parseInt_strip [OF ws sg, of "ds @ rest"] t show ?thesis
    by (simp add: Let_def nh Z ds(1) del: take_append drop_append)
qed

lemma parseInt_no_digits:
  assumes ws: "\<forall>c\<in>set ws. isWhiteSpace c"
    and sg: "sg = [] \<or> sg = [43] \<or> sg = [45]"
    and tail: "case tail of [] \<Rightarrow> True
               | c # _ \<Rightarrow> \<not> isRadixDigit 10 c \<and> (sg = [] \<longrightarrow> \<not> isWhiteSpace c \<and> c \<noteq> 43 \<and> c \<noteq> 45)"
  shows "parseInt (ws @ sg @ tail) = NaN"
proof -
  have t: "sg = [] \<Longrightarrow> (case tail of [] \<Rightarrow> True | c # _ \<Rightarrow> \<not> isWhiteSpace c \<and> c \<noteq> 43 \<and> c \<noteq> 45)"
    using tail by (cases tail) simp_all
  have z: "isRadixDigit 10 48" by (simp add: isRadixDigit_def digitValue_def)
  have nh: "take 2 tail \<noteq> [48, 120]" "take 2 tail \<noteq> [48, 88]"
    using tail z by (cases tail; auto)+
  have Z: "takeWhile (isRadixDigit 10) tail = []"
    using tail by (cases tail) simp_all
  from parseInt_strip [OF ws sg t] show ?thesis
    by (simp add: Let_def nh Z)
qed

lemma parseInt_hex_prefix:
  assumes ws: "\<forall>c\<in>set ws. isWhiteSpace c"
    and sg: "sg = [] \<or> sg = [43] \<or> sg = [45]"
    and x: "x = 120 \<or> x = 88"
    and hs: "\<forall>c\<in>set hs. isRadixDigit 16 c"
    and rest: "case rest of [] \<Rightarrow> True | c # _ \<Rightarrow> \<not> isRadixDigit 16 c"
  shows "parseInt (ws @ sg @ [48, x] @ hs @ rest) =
           (if hs = [] then NaN
            else Number ((if sg = [45] then - 1 else 1) * int (radixValue 16 hs)))"
proof -
  have t: "case [48, x] @ hs @ rest of [] \<Rightarrow> True | c # _ \<Rightarrow> \<not> isWhiteSpace c \<and> c \<noteq> 43 \<and> c \<noteq> 45"
    by (simp add: isWhiteSpace_def)
  have "takeWhile (isRadixDigit 16) rest = []"
    using rest by (cases rest) simp_all
  then have Z: "takeWhile (isRadixDigit 16) (hs @ rest) = hs"
    using hs by (simp add: takeWhile_append2)
  from parseInt_strip [OF ws sg, of "[48, x] @ hs @ rest"] t x show ?thesis
    by (auto simp: Let_def Z)
qed

lemma toString_safe:
  "\<bar>n\<bar> \<le> MAX_SAFE_INTEGER \<Longrightarrow>
   toString h n = (if n < 0 then [45] else []) @ digits (nat \<bar>n\<bar>)"
  by (simp add: toString_def)

lemma parseInt_toString:
  assumes "\<bar>n\<bar> \<le> MAX_SAFE_INTEGER"
  shows "parseInt (toString h n) = Number n"
proof -
  have "parseInt ([] @ (if n < 0 then [45] else []) @ digits (nat \<bar>n\<bar>) @ []) =
          Number ((if (if n < 0 then [45 :: nat] else []) = [45] then - 1 else 1)
                  * int (radixValue 10 (digits (nat \<bar>n\<bar>))))"
    by (rule parseInt_decimal_prefix) (auto simp: digits_not_Nil digits_decimal)
  then show ?thesis
    using assms by (simp add: toString_safe digits_value)
qed

lemma toString_not_Nil: "\<bar>n\<bar> \<le> MAX_SAFE_INTEGER \<Longrightarrow> toString h n \<noteq> []"
  by (simp add: toString_safe digits_not_Nil)

subsection \<open>The caught-up timestamp: reads, writes and the loop of the effect\<close>

lemma get_Unavailable: "getCaughtUpTimestamp now Unavailable = Number (oneDayAgo now)"
  by (simp add: getCaughtUpTimestamp_def tryGetCaughtUpTimestamp_def getItem_def)

lemma get_Items:
  "getCaughtUpTimestamp now (Items items) =
     (case items caughtUpKey of
        None \<Rightarrow> Number (oneDayAgo now)
      | Some s \<Rightarrow> if s \<noteq> [] then parseInt s else Number (oneDayAgo now))"
  by (simp add: getCaughtUpTimestamp_def tryGetCaughtUpTimestamp_def getItem_def split: option.splits)

lemma set_Items:
  "setCaughtUpTimestamp h (Items items) ts = Inr (Items (items(caughtUpKey \<mapsto> toString h ts)))"
  by (simp add: setCaughtUpTimestamp_def setItem_def)

lemma set_Unavailable: "setCaughtUpTimestamp h Unavailable ts = Inl StorageError"
  by (simp add: setCaughtUpTimestamp_def setItem_def)

lemma get_after_set:
  "\<bar>ts\<bar> \<le> MAX_SAFE_INTEGER \<Longrightarrow> setCaughtUpTimestamp h ls ts = Inr ls' \<Longrightarrow>
   getCaughtUpTimestamp now ls' = Number ts"
  by (cases ls)
    (auto simp: setCaughtUpTimestamp_def setItem_def get_Items parseInt_toString toString_not_Nil)

lemma caughtUpLoop_append:
  "caughtUpLoop h now ls (xs @ ys) =
     (case caughtUpLoop h now ls xs of Inl e \<Rightarrow> Inl e | Inr ls' \<Rightarrow> caughtUpLoop h now ls' ys)"
  by (induction xs arbitrary: ls) (auto split: sum.splits)

lemma caughtUpLoop_fold:
  assumes "getCaughtUpTimestamp now (Items items) = Number w"
    and "\<forall>c\<in>set cs. \<bar>c_timestamp c\<bar> \<le> MAX_SAFE_INTEGER"
  shows "\<exists>items'. caughtUpLoop h now (Items items) cs = Inr (Items items') \<and>
           getCaughtUpTimestamp now (Items items') = Number (fold max (map c_timestamp cs) w)"
  using assms
proof (induction cs arbitrary: items w)
  case Nil
  then show ?case by simp
next
  case (Cons c cs)
  from Cons.prems(2) have safe: "\<bar>c_timestamp c\<bar> \<le> MAX_SAFE_INTEGER"
    and rest: "\<forall>c\<in>set cs. \<bar>c_timestamp c\<bar> \<le> MAX_SAFE_INTEGER"
    by simp_all
  show ?case
  proof (cases "c_timestamp c > w")
    case True
    let ?items = "items(caughtUpKey \<mapsto> toString h (c_timestamp c))"
    have step: "caughtUpLoop h now (Items items) (c # cs) = caughtUpLoop h now (Items ?items) cs"
      using True Cons.prems(1) by (simp add: set_Items)
    have m: "max (c_timestamp c) w = c_timestamp c"
      using True by simp
    have "getCaughtUpTimestamp now (Items ?items) = Number (c_timestamp c)"
      using get_after_set [OF safe set_Items] .
    from Cons.IH [OF this rest] obtain items' where
      "caughtUpLoop h now (Items ?items) cs = Inr (Items items')"
      "getCaughtUpTimestamp now (Items items') = Number (fold max (map c_timestamp cs) (c_timestamp c))"
      by blast
    then show ?thesis
      unfolding step by (simp only: list.map fold_simps m) blast
  next
    case False
    have step: "caughtUpLoop h now (Items items) (c # cs) = caughtUpLoop h now (Items items) cs"
      using False Cons.prems(1) by simp
    have m: "max (c_timestamp c) w = w"
      using False by simp
    from Cons.IH [OF Cons.prems(1) rest] show ?thesis
      unfolding step by (simp only: list.map fold_simps m)
  qed
qed

lemma fold_max_Max: "fold max xs (w :: int) = Max (insert w (set xs))"
  using Max.set_eq_fold [of w xs] by simp

lemma caughtUpLoop_Max:
  assumes "getCaughtUpTimestamp now (Items items) = Number w"
    and "\<forall>c\<in>set cs. \<bar>c_timestamp c\<bar> \<le> MAX_SAFE_INTEGER"
  shows "\<exists>items'. caughtUpLoop h now (Items items) cs = Inr (Items items') \<and>
           getCaughtUpTimestamp now (Items items') = Number (Max (insert w (c_timestamp ` set cs)))"
  using caughtUpLoop_fold [OF assms, of h] by (simp add: fold_max_Max)

subsection \<open>The handler on a history message\<close>

lemma asChatMessage_not_null: "asChatMessage c = Some cm \<Longrightarrow> c \<noteq> JNull"
  by (auto simp: asChatMessage_def)

lemma historyLoop_typed:
  "map asChatMessage cs = map Some ms \<Longrightarrow>
   historyLoop now ls cs acts =
     (acts @ map Add (filter (\<lambda>c. \<not> num_lt (Number (timestamp c)) (getCaughtUpTimestamp now ls)) ms),
      None)"
proof (induction cs arbitrary: ms acts)
  case Nil
  then show ?case by simp
next
  case (Cons c cs)
  then obtain cm ms' where ms: "ms = cm # ms'" "asChatMessage c = Some cm"
    "map asChatMessage cs = map Some ms'"
    by (cases ms) auto
  from Cons.IH [OF ms(3)] ms(1,2) asChatMessage_not_null [OF ms(2)] show ?case
    by (simp add: Let_def)
qed

lemma onMessage_history:
  assumes "JSON_parse h (messageJson m) = Some (JObj kvs)"
    and "map_of kvs ''type'' = Some (JStr ''history'')"
    and "map_of kvs ''comments'' = Some (JArr cs)"
    and "map asChatMessage cs = map Some ms"
  shows "onMessage h now ls chatComments m =
           \<lparr> dispatched = map Add (filter (\<lambda>c. \<not> num_lt (Number (timestamp c))
                                                  (getCaughtUpTimestamp now ls)) ms),
             published = [], thrown = None \<rparr>"
  using assms by (simp add: onMessage_def historyLoop_typed)

subsection \<open>The responder: what the two loops publish\<close>

lemma batchLoop_bound:
  assumes "batchLoop h cs st i size0 toSend = (i', out)"
    and "size0 = sum_list (map (JSON_stringify_length h) toSend)"
    and "toSend \<noteq> [] \<longrightarrow> sum_list (map (JSON_stringify_length h) (butlast toSend)) < 10000"
  shows "out \<noteq> [] \<longrightarrow> sum_list (map (JSON_stringify_length h) (butlast out)) < 10000"
  using assms
proof (induction h cs st i size0 toSend rule: batchLoop.induct)
  case (1 h cs st i size0 toSend)
  show ?case
  proof (cases "size0 < 10000 \<and> i < length cs")
    case False
    with "1.prems"(1) have "out = toSend"
      by (simp add: batchLoop.simps [of h cs st i size0 toSend])
    with "1.prems"(3) show ?thesis by simp
  next
    case True
    let ?mm = "chatMessage (cs ! i)"
    show ?thesis
    proof (cases "num_gt (Number (timestamp ?mm)) (ToNumber h st)")
      case yes: True
      from True yes "1.prems"(1)
      have r: "batchLoop h cs st (i + 1) (size0 + JSON_stringify_length h ?mm) (toSend @ [?mm]) = (i', out)"
        by (simp add: Let_def batchLoop.simps [of h cs st i size0 toSend])
      have s: "size0 + JSON_stringify_length h ?mm
                 = sum_list (map (JSON_stringify_length h) (toSend @ [?mm]))"
        using "1.prems"(2) by simp
      have b: "toSend @ [?mm] \<noteq> [] \<longrightarrow>
                 sum_list (map (JSON_stringify_length h) (butlast (toSend @ [?mm]))) < 10000"
        using True "1.prems"(2) by simp
      from "1.IH"(1) [OF True refl yes r s b] show ?thesis .
    next
      case no: False
      from True no "1.prems"(1)
      have r: "batchLoop h cs st (i + 1) size0 toSend = (i', out)"
        by (simp add: Let_def batchLoop.simps [of h cs st i size0 toSend])
      from "1.IH"(2) [OF True refl no r "1.prems"(2,3)] show ?thesis .
    qed
  qed
qed

lemma batchLoop_no_match:
  assumes "batchLoop h cs st i size0 toSend = (i', out)"
    and "\<forall>c\<in>set cs. \<not> num_gt (Number (timestamp (chatMessage c))) (ToNumber h st)"
  shows "out = toSend"
  using assms
proof (induction h cs st i size0 toSend rule: batchLoop.induct)
  case (1 h cs st i size0 toSend)
  show ?case
  proof (cases "size0 < 10000 \<and> i < length cs")
    case False
    with "1.prems"(1) show ?thesis
      by (simp add: batchLoop.simps [of h cs st i size0 toSend])
  next
    case True
    then have no: "\<not> num_gt (Number (timestamp (chatMessage (cs ! i)))) (ToNumber h st)"
      using "1.prems"(2) by simp
    from True no "1.prems"(1)
    have r: "batchLoop h cs st (i + 1) size0 toSend = (i', out)"
      by (simp add: Let_def batchLoop.simps [of h cs st i size0 toSend])
    from "1.IH"(2) [OF True refl no r "1.prems"(2)] show ?thesis .
  qed
qed

lemma batchLoop_content:
  assumes "batchLoop h cs st i size0 toSend = (i', out)"
  shows "out = toSend @ filter (\<lambda>mm. num_gt (Number (timestamp mm)) (ToNumber h st))
                          (map chatMessage (take (i' - i) (drop i cs)))"
  using assms
proof (induction h cs st i size0 toSend rule: batchLoop.induct)
  case (1 h cs st i size0 toSend)
  show ?case
  proof (cases "size0 < 10000 \<and> i < length cs")
    case False
    with "1.prems"(1) show ?thesis
      by (simp add: batchLoop.simps [of h cs st i size0 toSend])
  next
    case True
    let ?mm = "chatMessage (cs ! i)"
    have step: "take (i' - i) (drop i cs) = cs ! i # take (i' - (i + 1)) (drop (i + 1) cs)"
      if "i < i'"
    proof -
      from that obtain k where k: "i' - i = Suc k" "i' - Suc i = k"
        by (cases "i' - i") auto
      have "drop i cs = cs ! i # drop (i + 1) cs"
        using True by (simp add: Cons_nth_drop_Suc)
      then show ?thesis by (simp add: k)
    qed
    show ?thesis
    proof (cases "num_gt (Number (timestamp ?mm)) (ToNumber h st)")
      case yes: True
      from True yes "1.prems"(1)
      have r: "batchLoop h cs st (i + 1) (size0 + JSON_stringify_length h ?mm) (toSend @ [?mm]) = (i', out)"
        by (simp add: Let_def batchLoop.simps [of h cs st i size0 toSend])
      from batchLoop_index [OF r] have "i < i'" by simp
      from "1.IH"(1) [OF True refl yes r] step [OF this] yes show ?thesis by simp
    next
      case no: False
      from True no "1.prems"(1)
      have r: "batchLoop h cs st (i + 1) size0 toSend = (i', out)"
        by (simp add: Let_def batchLoop.simps [of h cs st i size0 toSend])
      from batchLoop_index [OF r] have "i < i'" by simp
      from "1.IH"(2) [OF True refl no r] step [OF this] no show ?thesis by simp
    qed
  qed
qed

lemma sendLoop_bound:
  "p \<in> set (sendLoop h cs st i) \<Longrightarrow>
   \<exists>b. p = History b \<and> b \<noteq> [] \<and> sum_list (map (JSON_stringify_length h) (butlast b)) < 10000"
proof (induction h cs st i rule: sendLoop.induct)
  case (1 h cs st i)
  show ?case
  proof (cases "i < length cs")
    case False
    with "1.prems" show ?thesis by (simp add: sendLoop.simps [of h cs st i])
  next
    case True
    obtain i' toSend where r: "batchLoop h cs st i 0 [] = (i', toSend)"
      by (cases "batchLoop h cs st i 0 []")
    from "1.prems" True r
    have "p \<in> set ((if length toSend > 0 then [History toSend] else []) @ sendLoop h cs st i')"
      by (simp add: sendLoop.simps [of h cs st i])
    then consider "p = History toSend" "toSend \<noteq> []" | "p \<in> set (sendLoop h cs st i')"
      by (auto split: if_splits)
    then show ?thesis
    proof cases
      case 1
      with batchLoop_bound [OF r] show ?thesis by simp
    next
      case 2
      from "1.IH" [OF True r [symmetric] 2] show ?thesis .
    qed
  qed
qed

lemma sendLoop_no_match:
  "\<forall>c\<in>set cs. \<not> num_gt (Number (timestamp (chatMessage c))) (ToNumber h st) \<Longrightarrow>
   sendLoop h cs st i = []"
proof (induction h cs st i rule: sendLoop.induct)
  case (1 h cs st i)
  show ?case
  proof (cases "i < length cs")
    case False
    then show ?thesis by (simp add: sendLoop.simps [of h cs st i])
  next
    case True
    obtain i' toSend where r: "batchLoop h cs st i 0 [] = (i', toSend)"
      by (cases "batchLoop h cs st i 0 []")
    from batchLoop_no_match [OF r "1.prems"] have e: "toSend = []" .
    from "1.IH" [OF True r [symmetric] "1.prems"] have "sendLoop h cs st i' = []" .
    with True r e show ?thesis
      by (simp add: sendLoop.simps [of h cs st i])
  qed
qed

lemma sendLoop_content:
  "concat (map comments_of (sendLoop h cs st i)) =
     filter (\<lambda>mm. num_gt (Number (timestamp mm)) (ToNumber h st)) (map chatMessage (drop i cs))"
proof (induction h cs st i rule: sendLoop.induct)
  case (1 h cs st i)
  show ?case
  proof (cases "i < length cs")
    case False
    then show ?thesis by (simp add: sendLoop.simps [of h cs st i])
  next
    case True
    obtain i' toSend where r: "batchLoop h cs st i 0 [] = (i', toSend)"
      by (cases "batchLoop h cs st i 0 []")
    from batchLoop_index [OF r] True have i': "i \<le> i'" "i' \<le> length cs" by simp_all
    have "drop i cs = take (i' - i) (drop i cs) @ drop i' cs"
      using i' by (metis append_take_drop_id drop_drop le_add_diff_inverse2)
    then have "filter (\<lambda>mm. num_gt (Number (timestamp mm)) (ToNumber h st)) (map chatMessage (drop i cs))
       = toSend @ filter (\<lambda>mm. num_gt (Number (timestamp mm)) (ToNumber h st)) (map chatMessage (drop i' cs))"
      using batchLoop_content [OF r] by (metis append_Nil filter_append map_append)
    with "1.IH" [OF True r [symmetric]] True r show ?thesis
      by (simp add: sendLoop.simps [of h cs st i])
  qed
qed

lemma published_sendLoop:
  "p \<in> set (published (onMessage h now ls chatComments m)) \<Longrightarrow>
   \<exists>st. p \<in> set (sendLoop h chatComments st 0)"
  by (auto simp: onMessage_def split: option.splits sum.splits if_splits json.splits prod.splits)

subsection \<open>The concrete inputs, evaluated\<close>

lemma example_add:
  "exampleNow - expireTimeMsec \<le> t \<Longrightarrow>
   add exampleHost exampleNow [] (exampleComment sg t) = Inr [exampleStored sg t]"
  by (simp add: add_def exampleHost_def exampleComment_def exampleStored_def)

lemma toString_examples:
  "toString exampleHost 1700000000000 = ascii ''1700000000000''"
  "toString exampleHost 1700003600000 = ascii ''1700003600000''"
  "toString exampleHost 1699999999000 = ascii ''1699999999000''"
  "toString exampleHost 1731536000000 = ascii ''1731536000000''"
  "toString exampleHost (10 ^ 21) = ascii ''1e+21''"
  "toString exampleHost 1000000000000000000000 = ascii ''1e+21''"
  by (simp_all add: toString_def MAX_SAFE_INTEGER_def digits.simps digitChar_def ascii_def
      exampleHost_def)

lemma parseInt_examples:
  "parseInt (ascii ''1700003600000'') = Number 1700003600000"
  "parseInt (ascii ''1700000000000'') = Number 1700000000000"
  "parseInt (ascii ''1699999999000'') = Number 1699999999000"
  "parseInt (ascii ''1699999500000'') = Number 1699999500000"
  "parseInt (ascii ''1731536000000'') = Number 1731536000000"
  "parseInt (ascii ''1e+21'') = Number 1"
  "parseInt (ascii ''abc'') = NaN"
  "parseInt (ascii ''12 monkeys'') = Number 12"
  "parseInt (160 # ascii ''42'') = Number 42"
  by (simp_all add: parseInt_def Let_def isWhiteSpace_def isRadixDigit_def digitValue_def
      digitOf_def radixValue_def ascii_def)

lemma ascii_not_Nil:
  "ascii ''1700003600000'' \<noteq> []" "ascii ''1700000000000'' \<noteq> []" "ascii ''1699999999000'' \<noteq> []"
  "ascii ''1699999500000'' \<noteq> []" "ascii ''1731536000000'' \<noteq> []" "ascii ''1e+21'' \<noteq> []"
  "ascii ''abc'' \<noteq> []" "ascii ''12 monkeys'' \<noteq> []"
  by (simp_all add: ascii_def)

lemma example_watermark:
  "getCaughtUpTimestamp now (Items [caughtUpKey \<mapsto> ascii ''1699999500000'']) = Number 1699999500000"
  by (simp add: get_Items parseInt_examples ascii_not_Nil)

lemma example_fields:
  "timestamp exampleNested = 1699999990000" "timestamp exampleOld = 1699999000000"
  "systemSignature exampleNested = ''sig2''" "systemSignature exampleOld = ''sig3''"
  "senderPublicKey exampleNested = ''pk2''"
  by (simp_all add: exampleNested_def exampleOld_def)

lemma example_nested_add:
  "add exampleHost exampleNow [] exampleNested =
     Inr [\<lparr> commentId = ''sig2'', c_senderPublicKey = ''pk2'', userName = None,
             c_timestamp = 1699999990000, comment = None, chatMessage = exampleNested \<rparr>]"
  by (simp add: add_def exampleHost_def exampleNested_def exampleNow_def expireTimeMsec_def)

lemma example_history_parse:
  "JSON_parse exampleHost (messageJson exampleHistory) =
     Some (JObj [(''type'', JStr ''history''),
                 (''comments'', JArr [
                    JObj [(''systemSignature'', JStr ''sig2''), (''senderPublicKey'', JStr ''pk2''),
                          (''timestamp'', JNum 1699999990000),
                          (''messageJson'', JStr (messageJson exampleNested))],
                    JObj [(''systemSignature'', JStr ''sig3''), (''senderPublicKey'', JStr ''pk3''),
                          (''timestamp'', JNum 1699999000000),
                          (''messageJson'', JStr (messageJson exampleOld))]])])"
  by (simp add: exampleHost_def exampleHistory_def exampleHistoryJson_def exampleNested_def exampleOld_def)

lemma example_typed:
  "map asChatMessage
     [JObj [(''systemSignature'', JStr ''sig2''), (''senderPublicKey'', JStr ''pk2''),
            (''timestamp'', JNum 1699999990000), (''messageJson'', JStr (messageJson exampleNested))],
      JObj [(''systemSignature'', JStr ''sig3''), (''senderPublicKey'', JStr ''pk3''),
            (''timestamp'', JNum 1699999000000), (''messageJson'', JStr (messageJson exampleOld))]]
   = map Some [exampleNested, exampleOld]"
  by (simp add: asChatMessage_def exampleNested_def exampleOld_def)

lemma example_sizes:
  "JSON_stringify_length exampleHost (exampleComment sg t) = 4050"
  "timestamp (exampleComment sg t) = t"
  "chatMessage (exampleStored sg t) = exampleComment sg t"
  by (simp_all add: exampleHost_def exampleComment_def exampleStored_def)

lemma example_batches:
  "batchLoop exampleHost exampleStore (Some (JNum 1699999000000)) 0 0 [] =
     (4, [exampleComment ''s1'' 1699999100000, exampleComment ''s2'' 1699999200000,
          exampleComment ''s3'' 1699999300000])"
  "batchLoop exampleHost exampleStore (Some (JNum 1699999000000)) 4 0 [] =
     (5, [exampleComment ''s4'' 1699999400000])"
  by (simp_all add: batchLoop.simps exampleStore_def example_sizes)

lemma example_sendLoop:
  "sendLoop exampleHost exampleStore (Some (JNum 1699999000000)) 0 =
     [History [exampleComment ''s1'' 1699999100000, exampleComment ''s2'' 1699999200000,
               exampleComment ''s3'' 1699999300000],
      History [exampleComment ''s4'' 1699999400000]]"
proof -
  have l: "length exampleStore = 5" by (simp add: exampleStore_def)
  have "sendLoop exampleHost exampleStore (Some (JNum 1699999000000)) 5 = []"
    by (simp add: sendLoop.simps [of _ _ _ 5] l)
  then have "sendLoop exampleHost exampleStore (Some (JNum 1699999000000)) 4 =
      [History [exampleComment ''s4'' 1699999400000]]"
    by (simp add: sendLoop.simps [of _ _ _ 4] l example_batches)
  then show ?thesis
    by (simp add: sendLoop.simps [of _ _ _ 0] l example_batches)
qed

lemma example_request_parse:
  "JSON_parse exampleHost (messageJson exampleRequest) =
     Some (JObj [(''type'', JStr ''request-history''), (''startTimestamp'', JNum 1699999000000)])"
  by (simp add: exampleHost_def exampleRequest_def)

section \<open>The claims\<close>

subsection \<open>Idempotent add and unique identifiers\<close>

text \<open>
  Claim C1. Adding a message a second time, at the same or a later time, gives the
  result of adding it once (the same store, or the same exception), whatever the store
  is; and no store that the actions build from the empty store holds two comments with
  the same \<open>commentId\<close>.
\<close>
theorem add_idempotent_ids_unique:
  "(now1 \<le> now2 \<longrightarrow>
      (case add h now1 s m of Inl e \<Rightarrow> Inl e | Inr s' \<Rightarrow> add h now2 s' m) = add h now1 s m)
   \<and> (reachable h r \<longrightarrow> distinct (map commentId r))"
proof (intro conjI impI)
  assume "now1 \<le> now2"
  then show "(case add h now1 s m of Inl e \<Rightarrow> Inl e | Inr s' \<Rightarrow> add h now2 s' m) = add h now1 s m"
    by (rule add_twice)
next
  assume "reachable h r"
  then show "distinct (map commentId r)"
    by (rule reachable_invariant [where P = "\<lambda>s. distinct (map commentId s)", rotated 2])
      (simp_all add: add_distinct)
qed

theorem add_idempotent_ids_unique_witness:
  "add exampleHost exampleNow [] (exampleComment ''sig1'' exampleNow)
     = Inr [exampleStored ''sig1'' exampleNow]
   \<and> add exampleHost (exampleNow + 5) [exampleStored ''sig1'' exampleNow]
        (exampleComment ''sig1'' exampleNow) = Inr [exampleStored ''sig1'' exampleNow]
   \<and> reachable exampleHost [exampleStored ''sig1'' exampleNow]
   \<and> distinct (map commentId [exampleStored ''sig1'' exampleNow])"
proof -
  have a: "add exampleHost exampleNow [] (exampleComment ''sig1'' exampleNow)
             = Inr [exampleStored ''sig1'' exampleNow]"
    by (simp add: example_add expireTimeMsec_def)
  have "chatCommentsReducer exampleHost exampleNow [] (Add (exampleComment ''sig1'' exampleNow))
          = Inr [exampleStored ''sig1'' exampleNow]"
    by (simp add: chatCommentsReducer_def a)
  with reachable.initial have r: "reachable exampleHost [exampleStored ''sig1'' exampleNow]"
    by (rule reachable.step)
  from add_idempotent_ids_unique [where ?now1.0 = exampleNow and ?now2.0 = "exampleNow + 5"
      and h = exampleHost and s = "[]" and m = "exampleComment ''sig1'' exampleNow"
      and r = "[exampleStored ''sig1'' exampleNow]"] a r
  show ?thesis by simp
qed

subsection \<open>The store is sorted by timestamp\<close>

text \<open>
  Claim C2. Every store that the actions build from the empty store has its timestamps
  in non-decreasing order. An \<open>add\<close> that changes the store returns the old comments
  and the new one, sorted by timestamp, and comments of equal timestamp keep the order
  they have in the old store followed by the new comment.
\<close>
theorem store_sorted_by_timestamp:
  "(reachable h r \<longrightarrow> sorted (map c_timestamp r))
   \<and> (add h now s m = Inr s' \<and> s' \<noteq> s \<longrightarrow>
        (\<exists>new. commentId new = systemSignature m \<and> c_timestamp new = timestamp m \<and>
           sorted (map c_timestamp s') \<and> mset s' = mset (s @ [new]) \<and>
           (\<forall>k. filter (\<lambda>c. c_timestamp c = k) s' = filter (\<lambda>c. c_timestamp c = k) (s @ [new]))))"
proof (intro conjI impI)
  assume "reachable h r"
  then show "sorted (map c_timestamp r)"
    by (rule reachable_invariant [where P = "\<lambda>s. sorted (map c_timestamp s)", rotated 2])
      (simp_all add: add_sorted)
next
  assume a: "add h now s m = Inr s' \<and> s' \<noteq> s"
  with add_result [of h now s m s'] obtain u t where
    s': "s' = sort_key c_timestamp
              (s @ [\<lparr> commentId = systemSignature m, c_senderPublicKey = senderPublicKey m,
                      userName = u, c_timestamp = timestamp m, comment = t, chatMessage = m \<rparr>])"
    by blast
  show "\<exists>new. commentId new = systemSignature m \<and> c_timestamp new = timestamp m \<and>
           sorted (map c_timestamp s') \<and> mset s' = mset (s @ [new]) \<and>
           (\<forall>k. filter (\<lambda>c. c_timestamp c = k) s' = filter (\<lambda>c. c_timestamp c = k) (s @ [new]))"
    unfolding s'
    by (rule exI [of _ "\<lparr> commentId = systemSignature m, c_senderPublicKey = senderPublicKey m,
                      userName = u, c_timestamp = timestamp m, comment = t, chatMessage = m \<rparr>"])
      (simp add: sort_key_stable del: sort_key_simps)
qed

theorem store_sorted_by_timestamp_witness:
  "reachable exampleHost [exampleStored ''sig1'' exampleNow]
   \<and> sorted (map c_timestamp [exampleStored ''sig1'' exampleNow])
   \<and> add exampleHost exampleNow [exampleStored ''sig1'' exampleNow] (exampleComment ''sig0'' (exampleNow - 1000))
       = Inr [exampleStored ''sig0'' (exampleNow - 1000), exampleStored ''sig1'' exampleNow]
   \<and> add exampleHost exampleNow [exampleStored ''sig1'' exampleNow] (exampleComment ''sig2'' exampleNow)
       = Inr [exampleStored ''sig1'' exampleNow, exampleStored ''sig2'' exampleNow]
   \<and> sorted (map c_timestamp [exampleStored ''sig0'' (exampleNow - 1000), exampleStored ''sig1'' exampleNow])"
proof -
  have "chatCommentsReducer exampleHost exampleNow [] (Add (exampleComment ''sig1'' exampleNow))
          = Inr [exampleStored ''sig1'' exampleNow]"
    by (simp add: chatCommentsReducer_def example_add expireTimeMsec_def)
  with reachable.initial have r: "reachable exampleHost [exampleStored ''sig1'' exampleNow]"
    by (rule reachable.step)
  have a: "add exampleHost exampleNow [exampleStored ''sig1'' exampleNow] (exampleComment ''sig0'' (exampleNow - 1000))
       = Inr [exampleStored ''sig0'' (exampleNow - 1000), exampleStored ''sig1'' exampleNow]"
    by (simp add: add_def exampleHost_def exampleComment_def exampleStored_def expireTimeMsec_def)
  have b: "add exampleHost exampleNow [exampleStored ''sig1'' exampleNow] (exampleComment ''sig2'' exampleNow)
       = Inr [exampleStored ''sig1'' exampleNow, exampleStored ''sig2'' exampleNow]"
    by (simp add: add_def exampleHost_def exampleComment_def exampleStored_def expireTimeMsec_def)
  from store_sorted_by_timestamp [where h = exampleHost and r = "[exampleStored ''sig1'' exampleNow]"
      and now = exampleNow and s = "[exampleStored ''sig1'' exampleNow]"
      and m = "exampleComment ''sig0'' (exampleNow - 1000)"
      and s' = "[exampleStored ''sig0'' (exampleNow - 1000), exampleStored ''sig1'' exampleNow]"] r a b
  show ?thesis by auto
qed

subsection \<open>The expiry boundary\<close>

text \<open>
  Claim C3, as the code has it. The window is one hour. A message whose timestamp is
  strictly below \<open>now - expireTimeMsec\<close> leaves the store unchanged; a message whose
  timestamp is \<open>now - expireTimeMsec\<close> or \<open>now - expireTimeMsec + 1\<close>, whose payload
  decodes to a value other than \<^verbatim>\<open>null\<close> and whose signature is not in the store is
  added. The claim as written fails at the boundary itself: a message with timestamp
  \<open>now - expireTimeMsec\<close> is added.
\<close>
theorem expiry_boundary:
  "expireTimeMsec = 3600000
   \<and> (timestamp m < now - expireTimeMsec \<longrightarrow> add h now s m = Inr s)
   \<and> ((timestamp m = now - expireTimeMsec \<or> timestamp m = now - expireTimeMsec + 1) \<and>
       JSON_parse h (messageJson m) = Some msg \<and> msg \<noteq> JNull \<and>
       (\<forall>c\<in>set s. commentId c \<noteq> systemSignature m) \<longrightarrow>
         (\<exists>new. commentId new = systemSignature m \<and> c_timestamp new = timestamp m \<and>
            chatMessage new = m \<and> add h now s m = Inr (sort_key c_timestamp (s @ [new]))))"
proof (intro conjI impI)
  show "expireTimeMsec = 3600000" by (simp add: expireTimeMsec_def)
next
  assume "timestamp m < now - expireTimeMsec"
  then show "add h now s m = Inr s" by (simp add: add_def)
next
  assume a: "(timestamp m = now - expireTimeMsec \<or> timestamp m = now - expireTimeMsec + 1) \<and>
       JSON_parse h (messageJson m) = Some msg \<and> msg \<noteq> JNull \<and>
       (\<forall>c\<in>set s. commentId c \<noteq> systemSignature m)"
  then have "\<not> timestamp m < now - expireTimeMsec" by auto
  from add_accepts [OF this, of h msg s] a obtain u t where
    "add h now s m = Inr (sort_key c_timestamp
             (s @ [\<lparr> commentId = systemSignature m, c_senderPublicKey = senderPublicKey m,
                     userName = u, c_timestamp = timestamp m, comment = t, chatMessage = m \<rparr>]))"
    by blast
  then show "\<exists>new. commentId new = systemSignature m \<and> c_timestamp new = timestamp m \<and>
            chatMessage new = m \<and> add h now s m = Inr (sort_key c_timestamp (s @ [new]))"
    by (intro exI [of _ "\<lparr> commentId = systemSignature m, c_senderPublicKey = senderPublicKey m,
                     userName = u, c_timestamp = timestamp m, comment = t, chatMessage = m \<rparr>"]) simp
qed

theorem expiry_boundary_witness:
  "timestamp (exampleComment ''sig1'' (exampleNow - expireTimeMsec - 1)) < exampleNow - expireTimeMsec
   \<and> add exampleHost exampleNow [] (exampleComment ''sig1'' (exampleNow - expireTimeMsec - 1)) = Inr []
   \<and> add exampleHost exampleNow [] (exampleComment ''sig1'' (exampleNow - expireTimeMsec + 1))
       = Inr [exampleStored ''sig1'' (exampleNow - expireTimeMsec + 1)]"
  using expiry_boundary [where m = "exampleComment ''sig1'' (exampleNow - expireTimeMsec - 1)"
      and now = exampleNow and h = exampleHost and s = "[]"]
  by (simp add: example_add) (simp add: exampleComment_def)

text \<open>Against claim C3 as written: a message stamped exactly one window before \<open>now\<close> is added to the empty store.\<close>
theorem expiry_boundary_counterexample:
  "add exampleHost exampleNow [] (exampleComment ''sig1'' (exampleNow - expireTimeMsec))
     = Inr [exampleStored ''sig1'' (exampleNow - expireTimeMsec)]
   \<and> add exampleHost exampleNow [] (exampleComment ''sig1'' (exampleNow - expireTimeMsec)) \<noteq> Inr []"
  by (simp add: example_add)

subsection \<open>The caught-up timestamp over a session\<close>

text \<open>
  Claim C4, as the code has it. Let the initial load be complete and \<^verbatim>\<open>localStorage\<close>
  be available, with a caught-up timestamp that reads as the number \<open>w\<close> (nothing
  stored, or a stored number), and let \<open>w\<close> and the timestamps of the comments be safe
  integers. Then the effect on \<^verbatim>\<open>chatComments\<close> ends with the caught-up timestamp at
  the maximum of \<open>w\<close> and the timestamps of the comments; at each comment the value
  read does not decrease, and when the comment changes the storage the value written
  is the comment's timestamp, strictly above the value read before.
  \<^verbatim>\<open>handleClearAllComments\<close> writes the current time whatever is stored, and
  dispatches \<^verbatim>\<open>clear\<close>.
\<close>

theorem caught_up_effect_monotone:
  assumes "getCaughtUpTimestamp now (Items items) = Number w"
    and "\<bar>w\<bar> \<le> MAX_SAFE_INTEGER"
    and "\<forall>c\<in>set cs. \<bar>c_timestamp c\<bar> \<le> MAX_SAFE_INTEGER"
  shows "(\<exists>items'. chatCommentsEffect h True now (Items items) cs = Inr (Items items') \<and>
            getCaughtUpTimestamp now (Items items') = Number (Max (insert w (c_timestamp ` set cs))))
       \<and> (\<forall>pre c post. cs = pre @ c # post \<longrightarrow>
            (\<exists>ls1 ls2 a b. caughtUpLoop h now (Items items) pre = Inr ls1 \<and>
               caughtUpLoop h now (Items items) (pre @ [c]) = Inr ls2 \<and>
               getCaughtUpTimestamp now ls1 = Number a \<and>
               getCaughtUpTimestamp now ls2 = Number b \<and> a \<le> b \<and>
               (ls2 \<noteq> ls1 \<longrightarrow> b = c_timestamp c \<and> a < b)))
       \<and> (\<forall>t ls'. \<bar>t\<bar> \<le> MAX_SAFE_INTEGER \<and> handleClearAllComments h t (Items items) = Inr ls' \<longrightarrow>
            snd ls' = [Clear] \<and> getCaughtUpTimestamp now (fst ls') = Number t)"
proof (intro conjI allI impI)
  show "\<exists>items'. chatCommentsEffect h True now (Items items) cs = Inr (Items items') \<and>
          getCaughtUpTimestamp now (Items items') = Number (Max (insert w (c_timestamp ` set cs)))"
    using caughtUpLoop_Max [OF assms(1,3), of h] by (simp add: chatCommentsEffect_def)
next
  fix pre c post
  assume cs: "cs = pre @ c # post"
  define a where "a = Max (insert w (c_timestamp ` set pre))"
  define b where "b = Max (insert w (c_timestamp ` set (pre @ [c])))"
  have safe1: "\<forall>c\<in>set pre. \<bar>c_timestamp c\<bar> \<le> MAX_SAFE_INTEGER"
    and safe2: "\<forall>c\<in>set (pre @ [c]). \<bar>c_timestamp c\<bar> \<le> MAX_SAFE_INTEGER"
    using assms(3) cs by simp_all
  obtain i1 where 1: "caughtUpLoop h now (Items items) pre = Inr (Items i1)"
    "getCaughtUpTimestamp now (Items i1) = Number a"
    using caughtUpLoop_Max [OF assms(1) safe1, of h] unfolding a_def by blast
  obtain i2 where 2: "caughtUpLoop h now (Items items) (pre @ [c]) = Inr (Items i2)"
    "getCaughtUpTimestamp now (Items i2) = Number b"
    using caughtUpLoop_Max [OF assms(1) safe2, of h] unfolding b_def by blast
  have "insert w (c_timestamp ` set (pre @ [c])) = insert (c_timestamp c) (insert w (c_timestamp ` set pre))"
    by auto
  then have b: "b = max (c_timestamp c) a"
    unfolding a_def b_def
    by (simp only: Max_insert [OF _ insert_not_empty] finite_insert finite_imageI finite_set)
  have "Items i2 \<noteq> Items i1 \<longrightarrow> b = c_timestamp c \<and> a < b"
  proof
    assume ne: "Items i2 \<noteq> Items i1"
    have "\<not> c_timestamp c \<le> a"
    proof
      assume "c_timestamp c \<le> a"
      then have "caughtUpLoop h now (Items items) (pre @ [c]) = Inr (Items i1)"
        using 1 by (simp add: caughtUpLoop_append)
      with 2 ne show False by simp
    qed
    then show "b = c_timestamp c \<and> a < b" using b by simp
  qed
  moreover have "a \<le> b" using b by simp
  ultimately show "\<exists>ls1 ls2 a b. caughtUpLoop h now (Items items) pre = Inr ls1 \<and>
               caughtUpLoop h now (Items items) (pre @ [c]) = Inr ls2 \<and>
               getCaughtUpTimestamp now ls1 = Number a \<and>
               getCaughtUpTimestamp now ls2 = Number b \<and> a \<le> b \<and>
               (ls2 \<noteq> ls1 \<longrightarrow> b = c_timestamp c \<and> a < b)"
    using 1 2 by blast
next
  fix t ls'
  assume "\<bar>t\<bar> \<le> MAX_SAFE_INTEGER \<and> handleClearAllComments h t (Items items) = Inr ls'"
  then show "snd ls' = [Clear]" "getCaughtUpTimestamp now (fst ls') = Number t"
    by (auto simp: handleClearAllComments_def get_after_set split: sum.splits)
qed

theorem caught_up_effect_monotone_witness:
  "getCaughtUpTimestamp exampleNow (Items Map.empty) = Number (oneDayAgo exampleNow)
   \<and> \<bar>oneDayAgo exampleNow\<bar> \<le> MAX_SAFE_INTEGER
   \<and> chatCommentsEffect exampleHost True exampleNow (Items Map.empty)
        [exampleStored ''sig0'' (exampleNow - 1000), exampleStored ''sig1'' exampleNow]
       = Inr (Items [caughtUpKey \<mapsto> ascii ''1700000000000''])
   \<and> getCaughtUpTimestamp exampleNow (Items [caughtUpKey \<mapsto> ascii ''1700000000000'']) = Number exampleNow
   \<and> Max (insert (oneDayAgo exampleNow)
        (c_timestamp ` set [exampleStored ''sig0'' (exampleNow - 1000), exampleStored ''sig1'' exampleNow]))
       = exampleNow"
proof -
  have g: "getCaughtUpTimestamp exampleNow (Items Map.empty) = Number (oneDayAgo exampleNow)"
    by (simp add: get_Items)
  have w: "\<bar>oneDayAgo exampleNow\<bar> \<le> MAX_SAFE_INTEGER"
    by (simp add: oneDayAgo_def exampleNow_def MAX_SAFE_INTEGER_def)
  have s: "\<forall>c\<in>set [exampleStored ''sig0'' (exampleNow - 1000), exampleStored ''sig1'' exampleNow].
             \<bar>c_timestamp c\<bar> \<le> MAX_SAFE_INTEGER"
    by (simp add: exampleStored_def exampleNow_def MAX_SAFE_INTEGER_def)
  have e: "chatCommentsEffect exampleHost True exampleNow (Items Map.empty)
        [exampleStored ''sig0'' (exampleNow - 1000), exampleStored ''sig1'' exampleNow]
       = Inr (Items [caughtUpKey \<mapsto> ascii ''1700000000000''])"
    by (simp add: chatCommentsEffect_def get_Items set_Items oneDayAgo_def exampleStored_def
        exampleNow_def toString_examples parseInt_examples ascii_not_Nil)
  from caught_up_effect_monotone [OF g w s, of exampleHost] g w e
  show ?thesis
    by (simp add: exampleStored_def oneDayAgo_def)
qed

text \<open>
  Against claim C4 as written. With a stored caught-up timestamp one hour ahead of the
  clock, \<^verbatim>\<open>handleClearAllComments\<close> writes the earlier current time. A comment stamped
  \<open>10^21\<close>, which \<open>add\<close> accepts, is written as \<^verbatim>\<open>1e+21\<close> and read back as 1. With
  \<^verbatim>\<open>localStorage\<close> unavailable the effect throws at the first newer comment and the
  value read stays the default; with a stored string that is not a number the value
  read stays \<open>NaN\<close> and nothing is written; and before the initial load is complete the
  effect writes nothing.
\<close>

theorem caught_up_moves_back_counterexample:
  "getCaughtUpTimestamp exampleNow (Items [caughtUpKey \<mapsto> ascii ''1700003600000'']) = Number 1700003600000
   \<and> handleClearAllComments exampleHost exampleNow (Items [caughtUpKey \<mapsto> ascii ''1700003600000''])
       = Inr (Items [caughtUpKey \<mapsto> ascii ''1700000000000''], [Clear])
   \<and> getCaughtUpTimestamp exampleNow (Items [caughtUpKey \<mapsto> ascii ''1700000000000'']) = Number 1700000000000
   \<and> (1700000000000 :: int) < 1700003600000
   \<and> add exampleHost exampleNow [] (exampleComment ''sigF'' (10 ^ 21)) = Inr [exampleStored ''sigF'' (10 ^ 21)]
   \<and> chatCommentsEffect exampleHost True exampleNow (Items [caughtUpKey \<mapsto> ascii ''1700000000000''])
        [exampleStored ''sigF'' (10 ^ 21)] = Inr (Items [caughtUpKey \<mapsto> ascii ''1e+21''])
   \<and> getCaughtUpTimestamp exampleNow (Items [caughtUpKey \<mapsto> ascii ''1e+21'']) = Number 1
   \<and> chatCommentsEffect exampleHost True exampleNow Unavailable [exampleStored ''sig1'' exampleNow]
       = Inl StorageError
   \<and> getCaughtUpTimestamp exampleNow Unavailable = Number (oneDayAgo exampleNow)
   \<and> getCaughtUpTimestamp exampleNow (Items [caughtUpKey \<mapsto> ascii ''abc'']) = NaN
   \<and> chatCommentsEffect exampleHost True exampleNow (Items [caughtUpKey \<mapsto> ascii ''abc''])
        [exampleStored ''sig1'' exampleNow] = Inr (Items [caughtUpKey \<mapsto> ascii ''abc''])
   \<and> chatCommentsEffect exampleHost False exampleNow (Items Map.empty) [exampleStored ''sig1'' exampleNow]
       = Inr (Items Map.empty)"
proof -
  have 1: "getCaughtUpTimestamp exampleNow (Items [caughtUpKey \<mapsto> ascii ''1700003600000'']) = Number 1700003600000"
    "getCaughtUpTimestamp exampleNow (Items [caughtUpKey \<mapsto> ascii ''1700000000000'']) = Number 1700000000000"
    "getCaughtUpTimestamp exampleNow (Items [caughtUpKey \<mapsto> ascii ''1e+21'']) = Number 1"
    "getCaughtUpTimestamp exampleNow (Items [caughtUpKey \<mapsto> ascii ''abc'']) = NaN"
    by (simp_all add: get_Items parseInt_examples ascii_not_Nil)
  have 2: "handleClearAllComments exampleHost exampleNow (Items [caughtUpKey \<mapsto> ascii ''1700003600000''])
       = Inr (Items [caughtUpKey \<mapsto> ascii ''1700000000000''], [Clear])"
    by (simp add: handleClearAllComments_def set_Items exampleNow_def toString_examples)
  have 3: "add exampleHost exampleNow [] (exampleComment ''sigF'' (10 ^ 21)) = Inr [exampleStored ''sigF'' (10 ^ 21)]"
    using example_add [of "10 ^ 21" "''sigF''"] by (simp add: exampleNow_def expireTimeMsec_def)
  have 4: "chatCommentsEffect exampleHost True exampleNow (Items [caughtUpKey \<mapsto> ascii ''1700000000000''])
        [exampleStored ''sigF'' (10 ^ 21)] = Inr (Items [caughtUpKey \<mapsto> ascii ''1e+21''])"
    by (simp add: chatCommentsEffect_def 1 set_Items exampleStored_def toString_examples)
  have 5: "chatCommentsEffect exampleHost True exampleNow Unavailable [exampleStored ''sig1'' exampleNow]
       = Inl StorageError"
    by (simp add: chatCommentsEffect_def get_Unavailable set_Unavailable exampleStored_def oneDayAgo_def)
  have 6: "chatCommentsEffect exampleHost True exampleNow (Items [caughtUpKey \<mapsto> ascii ''abc''])
        [exampleStored ''sig1'' exampleNow] = Inr (Items [caughtUpKey \<mapsto> ascii ''abc''])"
    by (simp add: chatCommentsEffect_def 1)
  have 7: "chatCommentsEffect exampleHost False exampleNow (Items Map.empty) [exampleStored ''sig1'' exampleNow]
       = Inr (Items Map.empty)"
    by (simp add: chatCommentsEffect_def)
  from 1 2 3 4 5 6 7 get_Unavailable [of exampleNow] show ?thesis by simp
qed

subsection \<open>Ingestion of a history message\<close>

text \<open>
  Claim C5. When the payload of a delivered message is a history message whose
  \<^verbatim>\<open>comments\<close> are chat messages, the handler dispatches \<^verbatim>\<open>add\<close> for the members
  whose timestamp is not strictly less than the caught-up timestamp read at that
  moment, in their order, and for no other; it publishes nothing and throws nothing.
  A member strictly older than the caught-up timestamp therefore does not come into
  the store through this message, expired or not: if its signature is not in the
  store and is not the signature of a member that is kept, it is in no store that
  reducing the dispatched actions gives.
\<close>
theorem history_filter:
  assumes "JSON_parse h (messageJson m) = Some (JObj kvs)"
    and "map_of kvs ''type'' = Some (JStr ''history'')"
    and "map_of kvs ''comments'' = Some (JArr cs)"
    and "map asChatMessage cs = map Some ms"
  shows "onMessage h now ls chatComments m =
           \<lparr> dispatched = map Add (filter (\<lambda>c. \<not> num_lt (Number (timestamp c))
                                                  (getCaughtUpTimestamp now ls)) ms),
             published = [], thrown = None \<rparr>
       \<and> (\<forall>c\<in>set ms.
            num_lt (Number (timestamp c)) (getCaughtUpTimestamp now ls) \<and>
            (\<forall>c'\<in>set ms. systemSignature c' = systemSignature c \<longrightarrow>
               num_lt (Number (timestamp c')) (getCaughtUpTimestamp now ls)) \<and>
            systemSignature c \<notin> commentId ` set s \<longrightarrow>
            (\<forall>now' s'. applyDispatched h now' s (dispatched (onMessage h now ls chatComments m)) = Inr s'
               \<longrightarrow> systemSignature c \<notin> commentId ` set s'))"
proof (intro conjI ballI impI allI)
  show "onMessage h now ls chatComments m =
           \<lparr> dispatched = map Add (filter (\<lambda>c. \<not> num_lt (Number (timestamp c))
                                                  (getCaughtUpTimestamp now ls)) ms),
             published = [], thrown = None \<rparr>"
    using assms by (rule onMessage_history)
next
  fix c now' s'
  assume c: "c \<in> set ms"
    and old: "num_lt (Number (timestamp c)) (getCaughtUpTimestamp now ls) \<and>
            (\<forall>c'\<in>set ms. systemSignature c' = systemSignature c \<longrightarrow>
               num_lt (Number (timestamp c')) (getCaughtUpTimestamp now ls)) \<and>
            systemSignature c \<notin> commentId ` set s"
    and run: "applyDispatched h now' s (dispatched (onMessage h now ls chatComments m)) = Inr s'"
  let ?kept = "filter (\<lambda>c. \<not> num_lt (Number (timestamp c)) (getCaughtUpTimestamp now ls)) ms"
  from run have "addMultiple h now' s ?kept = Inr s'"
    by (simp add: onMessage_history [OF assms] applyDispatched_Add)
  then have "commentId ` set s' \<subseteq> commentId ` set s \<union> systemSignature ` set ?kept"
    by (rule addMultiple_ids)
  moreover have "systemSignature c \<notin> systemSignature ` set ?kept"
    using old by auto
  ultimately show "systemSignature c \<notin> commentId ` set s'"
    using old by blast
qed

theorem history_filter_witness:
  "onMessage exampleHost exampleNow (Items [caughtUpKey \<mapsto> ascii ''1699999500000'']) [] exampleHistory
     = \<lparr> dispatched = [Add exampleNested], published = [], thrown = None \<rparr>
   \<and> num_lt (Number (timestamp exampleOld))
        (getCaughtUpTimestamp exampleNow (Items [caughtUpKey \<mapsto> ascii ''1699999500000'']))
   \<and> \<not> timestamp exampleOld < exampleNow - expireTimeMsec
   \<and> applyDispatched exampleHost exampleNow [] [Add exampleNested] =
       Inr [\<lparr> commentId = ''sig2'', c_senderPublicKey = ''pk2'', userName = None,
               c_timestamp = 1699999990000, comment = None, chatMessage = exampleNested \<rparr>]
   \<and> systemSignature exampleOld \<notin> commentId ` set
        [\<lparr> commentId = ''sig2'', c_senderPublicKey = ''pk2'', userName = None,
            c_timestamp = 1699999990000, comment = None, chatMessage = exampleNested \<rparr>]"
proof -
  have g: "getCaughtUpTimestamp exampleNow (Items [caughtUpKey \<mapsto> ascii ''1699999500000''])
             = Number 1699999500000"
    by (rule example_watermark)
  have 1: "onMessage exampleHost exampleNow (Items [caughtUpKey \<mapsto> ascii ''1699999500000'']) [] exampleHistory
     = \<lparr> dispatched = [Add exampleNested], published = [], thrown = None \<rparr>"
    using history_filter [OF example_history_parse _ _ example_typed,
      where now = exampleNow and ls = "Items [caughtUpKey \<mapsto> ascii ''1699999500000'']"
      and chatComments = "[]" and s = "[]"]
    by (simp add: g example_fields)
  have 2: "num_lt (Number (timestamp exampleOld))
        (getCaughtUpTimestamp exampleNow (Items [caughtUpKey \<mapsto> ascii ''1699999500000'']))"
    by (simp add: g example_fields)
  have 3: "\<not> timestamp exampleOld < exampleNow - expireTimeMsec"
    by (simp add: example_fields exampleNow_def expireTimeMsec_def)
  have 4: "applyDispatched exampleHost exampleNow [] [Add exampleNested] =
       Inr [\<lparr> commentId = ''sig2'', c_senderPublicKey = ''pk2'', userName = None,
               c_timestamp = 1699999990000, comment = None, chatMessage = exampleNested \<rparr>]"
    by (simp add: chatCommentsReducer_def example_nested_add)
  have 5: "systemSignature exampleOld \<notin> commentId ` set
        [\<lparr> commentId = ''sig2'', c_senderPublicKey = ''pk2'', userName = None,
            c_timestamp = 1699999990000, comment = None, chatMessage = exampleNested \<rparr>]"
    by (simp add: example_fields)
  from 1 2 3 4 5 show ?thesis by blast
qed

subsection \<open>The responder: batches of bounded size\<close>

text \<open>
  Claim C6. Every payload the handler publishes is a history batch that is not empty,
  whose messages but the last have serialized lengths summing to less than 10000, so
  that the whole batch stays below 10000 plus the length of its last message. When
  the payload of the delivered message is a \<^verbatim>\<open>request-history\<close> and no comment of
  the store has a timestamp greater than its \<^verbatim>\<open>startTimestamp\<close>, the handler
  publishes nothing (and dispatches and throws nothing).
\<close>
theorem history_batches_bounded:
  "(\<forall>p\<in>set (published (onMessage h now ls chatComments m)).
      \<exists>toSend. p = History toSend \<and> toSend \<noteq> [] \<and>
        sum_list (map (JSON_stringify_length h) (butlast toSend)) < 10000 \<and>
        sum_list (map (JSON_stringify_length h) toSend) < 10000 + JSON_stringify_length h (last toSend))
   \<and> (JSON_parse h (messageJson m) = Some msg \<and>
      getProp msg ''type'' = Inr (Some (JStr ''request-history'')) \<and>
      getProp msg ''startTimestamp'' = Inr startTimestamp \<and>
      (\<forall>c\<in>set chatComments.
         \<not> num_gt (Number (timestamp (chatMessage c))) (ToNumber h startTimestamp)) \<longrightarrow>
        onMessage h now ls chatComments m = \<lparr> dispatched = [], published = [], thrown = None \<rparr>)"
proof (intro conjI ballI impI)
  fix p
  assume "p \<in> set (published (onMessage h now ls chatComments m))"
  then obtain st where "p \<in> set (sendLoop h chatComments st 0)"
    using published_sendLoop by blast
  then obtain b where b: "p = History b" "b \<noteq> []"
    "sum_list (map (JSON_stringify_length h) (butlast b)) < 10000"
    using sendLoop_bound by blast
  have "sum_list (map (JSON_stringify_length h) b)
          = sum_list (map (JSON_stringify_length h) (butlast b)) + JSON_stringify_length h (last b)"
    using b(2) by (induction b) auto
  with b show "\<exists>toSend. p = History toSend \<and> toSend \<noteq> [] \<and>
        sum_list (map (JSON_stringify_length h) (butlast toSend)) < 10000 \<and>
        sum_list (map (JSON_stringify_length h) toSend) < 10000 + JSON_stringify_length h (last toSend)"
    by auto
next
  assume "JSON_parse h (messageJson m) = Some msg \<and>
      getProp msg ''type'' = Inr (Some (JStr ''request-history'')) \<and>
      getProp msg ''startTimestamp'' = Inr startTimestamp \<and>
      (\<forall>c\<in>set chatComments.
         \<not> num_gt (Number (timestamp (chatMessage c))) (ToNumber h startTimestamp))"
  then show "onMessage h now ls chatComments m = \<lparr> dispatched = [], published = [], thrown = None \<rparr>"
    by (simp add: onMessage_def sendLoop_no_match)
qed

theorem history_batches_bounded_witness:
  "onMessage exampleHost exampleNow (Items Map.empty) exampleStore exampleRequest =
     \<lparr> dispatched = [],
       published = [History [exampleComment ''s1'' 1699999100000, exampleComment ''s2'' 1699999200000,
                             exampleComment ''s3'' 1699999300000],
                    History [exampleComment ''s4'' 1699999400000]],
       thrown = None \<rparr>
   \<and> sum_list (map (JSON_stringify_length exampleHost)
        [exampleComment ''s1'' 1699999100000, exampleComment ''s2'' 1699999200000]) = 8100
   \<and> sum_list (map (JSON_stringify_length exampleHost)
        [exampleComment ''s1'' 1699999100000, exampleComment ''s2'' 1699999200000,
         exampleComment ''s3'' 1699999300000]) = 12150
   \<and> onMessage exampleHost exampleNow (Items Map.empty) [exampleStored ''s0'' 1699998000000] exampleRequest
       = \<lparr> dispatched = [], published = [], thrown = None \<rparr>"
proof -
  have 1: "onMessage exampleHost exampleNow (Items Map.empty) exampleStore exampleRequest =
     \<lparr> dispatched = [],
       published = [History [exampleComment ''s1'' 1699999100000, exampleComment ''s2'' 1699999200000,
                             exampleComment ''s3'' 1699999300000],
                    History [exampleComment ''s4'' 1699999400000]],
       thrown = None \<rparr>"
    by (simp add: onMessage_def example_request_parse example_sendLoop)
  have 2: "\<forall>c\<in>set [exampleStored ''s0'' 1699998000000].
      \<not> num_gt (Number (timestamp (chatMessage c))) (ToNumber exampleHost (Some (JNum 1699999000000)))"
    by (simp add: example_sizes)
  from history_batches_bounded [where h = exampleHost and now = exampleNow and ls = "Items Map.empty"
      and chatComments = "[exampleStored ''s0'' 1699998000000]" and m = exampleRequest
      and msg = "JObj [(''type'', JStr ''request-history''), (''startTimestamp'', JNum 1699999000000)]"
      and startTimestamp = "Some (JNum 1699999000000)"] example_request_parse 2
  have 3: "onMessage exampleHost exampleNow (Items Map.empty) [exampleStored ''s0'' 1699998000000] exampleRequest
       = \<lparr> dispatched = [], published = [], thrown = None \<rparr>"
    by simp
  from history_batches_bounded [where h = exampleHost and now = exampleNow and ls = "Items Map.empty"
      and chatComments = exampleStore and m = exampleRequest] 1
  have 4: "sum_list (map (JSON_stringify_length exampleHost)
        [exampleComment ''s1'' 1699999100000, exampleComment ''s2'' 1699999200000]) < 10000"
    by simp
  have 5: "sum_list (map (JSON_stringify_length exampleHost)
        [exampleComment ''s1'' 1699999100000, exampleComment ''s2'' 1699999200000]) = 8100"
    "sum_list (map (JSON_stringify_length exampleHost)
        [exampleComment ''s1'' 1699999100000, exampleComment ''s2'' 1699999200000,
         exampleComment ''s3'' 1699999300000]) = 12150"
    by (simp_all add: example_sizes)
  from 1 3 4 5 show ?thesis by blast
qed

subsection \<open>Messages of unknown type, and payloads that do not decode\<close>

text \<open>
  Claim C7, as the code has it. A delivered message whose payload decodes to a value
  other than \<^verbatim>\<open>null\<close> and whose \<^verbatim>\<open>type\<close> is none of \<^verbatim>\<open>comment\<close>,
  \<^verbatim>\<open>request-history\<close> and \<^verbatim>\<open>history\<close> (or is missing) is ignored: the handler
  dispatches nothing, publishes nothing and throws nothing. The handler catches no
  exception: a \<^verbatim>\<open>messageJson\<close> that does not decode makes it throw the SyntaxError
  of \<^verbatim>\<open>JSON.parse\<close>, and a payload \<^verbatim>\<open>null\<close> a TypeError.
\<close>
theorem unknown_type_ignored:
  "(JSON_parse h (messageJson m) = Some msg \<and> getProp msg ''type'' = Inr ty \<and>
    ty \<noteq> Some (JStr ''comment'') \<and> ty \<noteq> Some (JStr ''request-history'') \<and>
    ty \<noteq> Some (JStr ''history'') \<longrightarrow>
      onMessage h now ls chatComments m = \<lparr> dispatched = [], published = [], thrown = None \<rparr>)
   \<and> (JSON_parse h (messageJson m) = None \<longrightarrow>
      onMessage h now ls chatComments m =
        \<lparr> dispatched = [], published = [], thrown = Some SyntaxError \<rparr>)
   \<and> (JSON_parse h (messageJson m) = Some JNull \<longrightarrow>
      onMessage h now ls chatComments m =
        \<lparr> dispatched = [], published = [], thrown = Some TypeError \<rparr>)"
  by (simp add: onMessage_def)

theorem unknown_type_ignored_witness:
  "JSON_parse exampleHost (messageJson exampleTyping) = Some (JObj [(''type'', JStr ''typing'')])
   \<and> onMessage exampleHost exampleNow (Items Map.empty) [exampleStored ''sig1'' exampleNow] exampleTyping
       = \<lparr> dispatched = [], published = [], thrown = None \<rparr>
   \<and> thrown (onMessage exampleHost exampleNow (Items Map.empty) [] exampleMalformed) = Some SyntaxError"
proof -
  have p: "JSON_parse exampleHost (messageJson exampleTyping) = Some (JObj [(''type'', JStr ''typing'')])"
    by (simp add: exampleHost_def exampleTyping_def)
  have q: "JSON_parse exampleHost (messageJson exampleMalformed) = None"
    by (simp add: exampleHost_def exampleMalformed_def exampleHistoryJson_def quoted_def)
  from unknown_type_ignored [where h = exampleHost and m = exampleTyping
      and msg = "JObj [(''type'', JStr ''typing'')]" and ty = "Some (JStr ''typing'')"
      and now = exampleNow and ls = "Items Map.empty"
      and chatComments = "[exampleStored ''sig1'' exampleNow]"]
    unknown_type_ignored [where h = exampleHost and m = exampleMalformed
      and now = exampleNow and ls = "Items Map.empty" and chatComments = "[]"] p q
  show ?thesis by simp
qed

text \<open>Against claim C7 as written: a \<^verbatim>\<open>messageJson\<close> that is not JSON makes the handler throw.\<close>
theorem malformed_payload_counterexample:
  "JSON_parse exampleHost (messageJson exampleMalformed) = None
   \<and> onMessage exampleHost exampleNow (Items Map.empty) [] exampleMalformed
       = \<lparr> dispatched = [], published = [], thrown = Some SyntaxError \<rparr>"
  by (simp add: onMessage_def exampleHost_def exampleMalformed_def exampleHistoryJson_def quoted_def)

subsection \<open>Reading the caught-up timestamp\<close>

text \<open>
  Claim C8, as the code has it. \<^verbatim>\<open>getCaughtUpTimestamp\<close> returns the safe integer that
  \<^verbatim>\<open>setCaughtUpTimestamp\<close> stored; it returns \<open>now\<close> minus 24 hours when nothing or
  the empty string is stored, and when reading \<^verbatim>\<open>localStorage\<close> throws, so that no
  exception leaves it. Any other stored string is read by \<^verbatim>\<open>parseInt\<close> and not
  checked: after white space \<open>ws\<close> and an optional sign \<open>sg\<close>, decimal digits \<open>ds\<close>
  that lead the rest are read as their value (a safe integer; the digits are not
  \<^verbatim>\<open>0\<close> followed by \<^verbatim>\<open>x\<close> or \<^verbatim>\<open>X\<close>, which selects radix 16), whatever follows
  them, and a string with no decimal digit there reads as \<open>NaN\<close>, not as the
  default.
\<close>

theorem caught_up_read:
  "(\<bar>w\<bar> \<le> MAX_SAFE_INTEGER \<longrightarrow>
      getCaughtUpTimestamp now (Items (items(caughtUpKey \<mapsto> toString h w))) = Number w)
   \<and> (items caughtUpKey = None \<or> items caughtUpKey = Some [] \<longrightarrow>
        getCaughtUpTimestamp now (Items items) = Number (now - 1000 * 60 * 60 * 24))
   \<and> getCaughtUpTimestamp now Unavailable = Number (now - 1000 * 60 * 60 * 24)
   \<and> (tryGetCaughtUpTimestamp now ls = Inl e \<longrightarrow>
        getCaughtUpTimestamp now ls = Number (now - 1000 * 60 * 60 * 24))
   \<and> ((\<forall>c\<in>set ws. isWhiteSpace c) \<and> (sg = [] \<or> sg = [43] \<or> sg = [45]) \<and>
       ds \<noteq> [] \<and> (\<forall>c\<in>set ds. isRadixDigit 10 c) \<and>
       (case rest of [] \<Rightarrow> True | c # _ \<Rightarrow> \<not> isRadixDigit 10 c) \<and>
       \<not> (ds = [48] \<and> (case rest of [] \<Rightarrow> False | c # _ \<Rightarrow> c = 120 \<or> c = 88)) \<and>
       int (radixValue 10 ds) \<le> MAX_SAFE_INTEGER \<and>
       items caughtUpKey = Some (ws @ sg @ ds @ rest) \<longrightarrow>
         getCaughtUpTimestamp now (Items items) =
           Number ((if sg = [45] then - 1 else 1) * int (radixValue 10 ds)))
   \<and> ((\<forall>c\<in>set ws. isWhiteSpace c) \<and> (sg = [] \<or> sg = [43] \<or> sg = [45]) \<and>
       (case tail of [] \<Rightarrow> True
        | c # _ \<Rightarrow> \<not> isRadixDigit 10 c \<and> (sg = [] \<longrightarrow> \<not> isWhiteSpace c \<and> c \<noteq> 43 \<and> c \<noteq> 45)) \<and>
       ws @ sg @ tail \<noteq> [] \<and>
       items caughtUpKey = Some (ws @ sg @ tail) \<longrightarrow>
         getCaughtUpTimestamp now (Items items) = NaN)"
proof (intro conjI impI)
  show "getCaughtUpTimestamp now (Items (items(caughtUpKey \<mapsto> toString h w))) = Number w"
    if "\<bar>w\<bar> \<le> MAX_SAFE_INTEGER"
    using that by (simp add: get_Items parseInt_toString toString_not_Nil)
  show "getCaughtUpTimestamp now (Items items) = Number (now - 1000 * 60 * 60 * 24)"
    if "items caughtUpKey = None \<or> items caughtUpKey = Some []"
    using that by (auto simp: get_Items oneDayAgo_def)
  show "getCaughtUpTimestamp now Unavailable = Number (now - 1000 * 60 * 60 * 24)"
    by (simp add: get_Unavailable oneDayAgo_def)
  show "getCaughtUpTimestamp now ls = Number (now - 1000 * 60 * 60 * 24)"
    if "tryGetCaughtUpTimestamp now ls = Inl e"
    using that by (simp add: getCaughtUpTimestamp_def oneDayAgo_def)
  show "getCaughtUpTimestamp now (Items items) =
           Number ((if sg = [45] then - 1 else 1) * int (radixValue 10 ds))"
    if a: "(\<forall>c\<in>set ws. isWhiteSpace c) \<and> (sg = [] \<or> sg = [43] \<or> sg = [45]) \<and>
       ds \<noteq> [] \<and> (\<forall>c\<in>set ds. isRadixDigit 10 c) \<and>
       (case rest of [] \<Rightarrow> True | c # _ \<Rightarrow> \<not> isRadixDigit 10 c) \<and>
       \<not> (ds = [48] \<and> (case rest of [] \<Rightarrow> False | c # _ \<Rightarrow> c = 120 \<or> c = 88)) \<and>
       int (radixValue 10 ds) \<le> MAX_SAFE_INTEGER \<and>
       items caughtUpKey = Some (ws @ sg @ ds @ rest)"
  proof -
    from a have "parseInt (ws @ sg @ ds @ rest) =
        Number ((if sg = [45] then - 1 else 1) * int (radixValue 10 ds))"
      by (intro parseInt_decimal_prefix) blast+
    with a show ?thesis by (simp add: get_Items)
  qed
  show "getCaughtUpTimestamp now (Items items) = NaN"
    if a: "(\<forall>c\<in>set ws. isWhiteSpace c) \<and> (sg = [] \<or> sg = [43] \<or> sg = [45]) \<and>
       (case tail of [] \<Rightarrow> True
        | c # _ \<Rightarrow> \<not> isRadixDigit 10 c \<and> (sg = [] \<longrightarrow> \<not> isWhiteSpace c \<and> c \<noteq> 43 \<and> c \<noteq> 45)) \<and>
       ws @ sg @ tail \<noteq> [] \<and>
       items caughtUpKey = Some (ws @ sg @ tail)"
  proof -
    from a have "parseInt (ws @ sg @ tail) = NaN"
      by (intro parseInt_no_digits) blast+
    with a show ?thesis by (simp add: get_Items)
  qed
qed

theorem caught_up_read_witness:
  "\<bar>1699999999000\<bar> \<le> MAX_SAFE_INTEGER
   \<and> getCaughtUpTimestamp exampleNow (Items [caughtUpKey \<mapsto> toString exampleHost 1699999999000])
       = Number 1699999999000
   \<and> toString exampleHost 1699999999000 = ascii ''1699999999000''
   \<and> getCaughtUpTimestamp exampleNow (Items Map.empty) = Number 1699913600000
   \<and> getCaughtUpTimestamp exampleNow (Items [caughtUpKey \<mapsto> []]) = Number 1699913600000
   \<and> tryGetCaughtUpTimestamp exampleNow Unavailable = Inl StorageError
   \<and> getCaughtUpTimestamp exampleNow Unavailable = Number 1699913600000
   \<and> getCaughtUpTimestamp exampleNow (Items [caughtUpKey \<mapsto> ascii ''12 monkeys'']) = Number 12
   \<and> getCaughtUpTimestamp exampleNow (Items [caughtUpKey \<mapsto> 160 # ascii ''-42'']) = Number (- 42)
   \<and> getCaughtUpTimestamp exampleNow (Items [caughtUpKey \<mapsto> ascii '' +x1'']) = NaN"
proof -
  have t: "tryGetCaughtUpTimestamp exampleNow Unavailable = Inl StorageError"
    by (simp add: tryGetCaughtUpTimestamp_def getItem_def)
  have d: "isRadixDigit 10 49" "isRadixDigit 10 50" "isRadixDigit 10 52" "\<not> isRadixDigit 10 32"
    "\<not> isRadixDigit 10 120" "isWhiteSpace 160" "isWhiteSpace 32"
    by (simp_all add: isRadixDigit_def digitValue_def isWhiteSpace_def)
  have v: "radixValue 10 [49, 50] = 12" "radixValue 10 [52, 50] = 42"
    by (simp_all add: radixValue_def digitOf_def digitValue_def)
  have 0: "\<bar>1699999999000\<bar> \<le> MAX_SAFE_INTEGER"
    by (simp add: MAX_SAFE_INTEGER_def)
  have 1: "getCaughtUpTimestamp exampleNow (Items [caughtUpKey \<mapsto> toString exampleHost 1699999999000])
       = Number 1699999999000"
    using caught_up_read [where now = exampleNow and items = Map.empty and w = 1699999999000
        and h = exampleHost, THEN conjunct1] 0
    by simp
  have 2: "getCaughtUpTimestamp exampleNow (Items Map.empty) = Number 1699913600000"
    using caught_up_read [where now = exampleNow and items = Map.empty,
        THEN conjunct2, THEN conjunct1]
    by (simp add: exampleNow_def)
  have 3: "getCaughtUpTimestamp exampleNow (Items [caughtUpKey \<mapsto> []]) = Number 1699913600000"
    using caught_up_read [where now = exampleNow and items = "[caughtUpKey \<mapsto> []]",
        THEN conjunct2, THEN conjunct1]
    by (simp add: exampleNow_def)
  have 4: "getCaughtUpTimestamp exampleNow Unavailable = Number 1699913600000"
    using caught_up_read [where now = exampleNow and ls = Unavailable and e = StorageError,
        THEN conjunct2, THEN conjunct2, THEN conjunct2, THEN conjunct1] t
    by (simp add: exampleNow_def)
  have 5: "getCaughtUpTimestamp exampleNow (Items [caughtUpKey \<mapsto> ascii ''12 monkeys'']) = Number 12"
    using caught_up_read [where now = exampleNow
        and items = "[caughtUpKey \<mapsto> ascii ''12 monkeys'']"
        and ws = "[]" and sg = "[]" and ds = "[49, 50]" and rest = "32 # ascii ''monkeys''",
        THEN conjunct2, THEN conjunct2, THEN conjunct2, THEN conjunct2, THEN conjunct1]
    by (simp add: d v MAX_SAFE_INTEGER_def ascii_def)
  have 6: "getCaughtUpTimestamp exampleNow (Items [caughtUpKey \<mapsto> 160 # ascii ''-42'']) = Number (- 42)"
    using caught_up_read [where now = exampleNow
        and items = "[caughtUpKey \<mapsto> 160 # ascii ''-42'']"
        and ws = "[160]" and sg = "[45]" and ds = "[52, 50]" and rest = "[]",
        THEN conjunct2, THEN conjunct2, THEN conjunct2, THEN conjunct2, THEN conjunct1]
    by (simp add: d v MAX_SAFE_INTEGER_def ascii_def)
  have 7: "getCaughtUpTimestamp exampleNow (Items [caughtUpKey \<mapsto> ascii '' +x1'']) = NaN"
    using caught_up_read [where now = exampleNow
        and items = "[caughtUpKey \<mapsto> ascii '' +x1'']"
        and ws = "[32]" and sg = "[43]" and tail = "[120, 49]",
        THEN conjunct2, THEN conjunct2, THEN conjunct2, THEN conjunct2, THEN conjunct2]
    by (simp add: d ascii_def)
  from 0 1 2 3 4 5 6 7 t toString_examples(3) show ?thesis by blast
qed

text \<open>
  Against claim C8 as written: a stored string with no leading integer reads as \<open>NaN\<close>,
  not as the default, and a string that only starts with an integer reads as that
  integer.
\<close>

theorem caught_up_read_counterexample:
  "getCaughtUpTimestamp exampleNow (Items [caughtUpKey \<mapsto> ascii ''abc'']) = NaN
   \<and> getCaughtUpTimestamp exampleNow (Items [caughtUpKey \<mapsto> ascii ''abc'']) \<noteq> Number (oneDayAgo exampleNow)
   \<and> getCaughtUpTimestamp exampleNow (Items [caughtUpKey \<mapsto> ascii ''12 monkeys'']) = Number 12"
  by (simp add: get_Items parseInt_examples ascii_not_Nil)

subsection \<open>No upper bound on timestamps\<close>

text \<open>
  Claim C9. A message whose timestamp is at least \<open>now - expireTimeMsec\<close>, however far
  in the future, whose payload decodes to a value other than \<^verbatim>\<open>null\<close> and whose
  signature is not in the store, is added to the store. When the caught-up timestamp
  read and the timestamps of the store are safe integers, the effect on
  \<^verbatim>\<open>chatComments\<close> then leaves a caught-up timestamp that is at least the message's
  timestamp, which may be later than \<open>now\<close>.
\<close>

theorem no_upper_timestamp_bound:
  assumes "now - expireTimeMsec \<le> timestamp m"
    and "JSON_parse h (messageJson m) = Some msg" and "msg \<noteq> JNull"
    and "\<forall>c\<in>set s. commentId c \<noteq> systemSignature m"
  shows "\<exists>new s'. commentId new = systemSignature m \<and> c_timestamp new = timestamp m \<and>
           chatMessage new = m \<and> add h now s m = Inr s' \<and>
           s' = sort_key c_timestamp (s @ [new]) \<and> new \<in> set s' \<and>
           (\<forall>items w. getCaughtUpTimestamp now (Items items) = Number w \<and>
                \<bar>w\<bar> \<le> MAX_SAFE_INTEGER \<and> (\<forall>c\<in>set s'. \<bar>c_timestamp c\<bar> \<le> MAX_SAFE_INTEGER) \<longrightarrow>
              (\<exists>items' w'. chatCommentsEffect h True now (Items items) s' = Inr (Items items') \<and>
                 getCaughtUpTimestamp now (Items items') = Number w' \<and> timestamp m \<le> w'))"
proof -
  from assms(1) have "\<not> timestamp m < now - expireTimeMsec" by simp
  from add_accepts [OF this assms(2,3,4)] obtain u t where
    a: "add h now s m = Inr (sort_key c_timestamp
             (s @ [\<lparr> commentId = systemSignature m, c_senderPublicKey = senderPublicKey m,
                     userName = u, c_timestamp = timestamp m, comment = t, chatMessage = m \<rparr>]))"
    by blast
  define new where "new = \<lparr> commentId = systemSignature m, c_senderPublicKey = senderPublicKey m,
                     userName = u, c_timestamp = timestamp m, comment = t, chatMessage = m \<rparr>"
  define s' where "s' = sort_key c_timestamp (s @ [new])"
  have mem: "new \<in> set s'" by (simp add: s'_def del: sort_key_simps)
  have "\<exists>items' w'. chatCommentsEffect h True now (Items items) s' = Inr (Items items') \<and>
                 getCaughtUpTimestamp now (Items items') = Number w' \<and> timestamp m \<le> w'"
    if "getCaughtUpTimestamp now (Items items) = Number w \<and>
          \<bar>w\<bar> \<le> MAX_SAFE_INTEGER \<and> (\<forall>c\<in>set s'. \<bar>c_timestamp c\<bar> \<le> MAX_SAFE_INTEGER)" for items w
  proof -
    from that have g: "getCaughtUpTimestamp now (Items items) = Number w"
      and safe: "\<forall>c\<in>set s'. \<bar>c_timestamp c\<bar> \<le> MAX_SAFE_INTEGER" by simp_all
    have "timestamp m \<in> insert w (c_timestamp ` set s')"
      using mem by (force simp: new_def)
    then have "timestamp m \<le> Max (insert w (c_timestamp ` set s'))"
      by (intro Max_ge) simp_all
    with caughtUpLoop_Max [OF g safe, of h] show ?thesis
      by (auto simp: chatCommentsEffect_def)
  qed
  then have eff: "\<forall>items w. getCaughtUpTimestamp now (Items items) = Number w \<and>
                \<bar>w\<bar> \<le> MAX_SAFE_INTEGER \<and> (\<forall>c\<in>set s'. \<bar>c_timestamp c\<bar> \<le> MAX_SAFE_INTEGER) \<longrightarrow>
              (\<exists>items' w'. chatCommentsEffect h True now (Items items) s' = Inr (Items items') \<and>
                 getCaughtUpTimestamp now (Items items') = Number w' \<and> timestamp m \<le> w')"
    by blast
  have f: "commentId new = systemSignature m" "c_timestamp new = timestamp m" "chatMessage new = m"
    by (simp_all add: new_def)
  have "add h now s m = Inr s'"
    using a unfolding s'_def new_def .
  with f mem eff s'_def show ?thesis by blast
qed

theorem no_upper_timestamp_bound_witness:
  "exampleNow - expireTimeMsec \<le> timestamp (exampleComment ''sig9'' (exampleNow + 31536000000))
   \<and> add exampleHost exampleNow [] (exampleComment ''sig9'' (exampleNow + 31536000000))
       = Inr [exampleStored ''sig9'' (exampleNow + 31536000000)]
   \<and> add exampleHost exampleNow [] (exampleComment ''sigF'' (10 ^ 21))
       = Inr [exampleStored ''sigF'' (10 ^ 21)]
   \<and> chatCommentsEffect exampleHost True exampleNow (Items Map.empty)
        [exampleStored ''sig9'' (exampleNow + 31536000000)]
       = Inr (Items [caughtUpKey \<mapsto> ascii ''1731536000000''])
   \<and> getCaughtUpTimestamp exampleNow (Items [caughtUpKey \<mapsto> ascii ''1731536000000''])
       = Number (exampleNow + 31536000000)
   \<and> exampleNow < exampleNow + 31536000000"
proof -
  have 1: "exampleNow - expireTimeMsec \<le> timestamp (exampleComment ''sig9'' (exampleNow + 31536000000))"
    by (simp add: exampleComment_def expireTimeMsec_def)
  have 2: "JSON_parse exampleHost (messageJson (exampleComment ''sig9'' (exampleNow + 31536000000)))
      = Some (JObj [(''type'', JStr ''comment''), (''userName'', JStr ''ann''), (''comment'', JStr ''hi'')])"
    by (simp add: exampleComment_def exampleHost_def)
  have 3: "JObj [(''type'', JStr ''comment''), (''userName'', JStr ''ann''), (''comment'', JStr ''hi'')] \<noteq> JNull"
    by simp
  have 4: "\<forall>c\<in>set []. commentId c \<noteq> systemSignature (exampleComment ''sig9'' (exampleNow + 31536000000))"
    by simp
  have e: "chatCommentsEffect exampleHost True exampleNow (Items Map.empty)
        [exampleStored ''sig9'' (exampleNow + 31536000000)]
       = Inr (Items [caughtUpKey \<mapsto> ascii ''1731536000000''])"
    by (simp add: chatCommentsEffect_def get_Items set_Items oneDayAgo_def exampleStored_def
        exampleNow_def toString_examples)
  have g: "getCaughtUpTimestamp exampleNow (Items [caughtUpKey \<mapsto> ascii ''1731536000000''])
       = Number (exampleNow + 31536000000)"
    by (simp add: get_Items parseInt_examples ascii_not_Nil exampleNow_def)
  have a: "add exampleHost exampleNow [] (exampleComment ''sig9'' (exampleNow + 31536000000))
       = Inr [exampleStored ''sig9'' (exampleNow + 31536000000)]"
    by (simp add: example_add expireTimeMsec_def)
  have b: "add exampleHost exampleNow [] (exampleComment ''sigF'' (10 ^ 21))
       = Inr [exampleStored ''sigF'' (10 ^ 21)]"
    using example_add [of "10 ^ 21" "''sigF''"] by (simp add: exampleNow_def expireTimeMsec_def)
  have 5: "exampleNow < exampleNow + 31536000000" by simp
  from no_upper_timestamp_bound [OF 1 2 3 4] obtain s' where
    "add exampleHost exampleNow [] (exampleComment ''sig9'' (exampleNow + 31536000000)) = Inr s'"
    "\<exists>new. s' = sort_key c_timestamp ([] @ [new]) \<and> new \<in> set s'"
    by blast
  with a have "s' = [exampleStored ''sig9'' (exampleNow + 31536000000)]" by simp
  with a 1 b e g 5 show ?thesis by blast
qed

subsection \<open>No check of the payload type in \<open>add\<close>\<close>

text \<open>
  Claim C10. \<open>add\<close> builds the comment from the properties \<^verbatim>\<open>userName\<close> and
  \<^verbatim>\<open>comment\<close> of the decoded payload, whatever its \<^verbatim>\<open>type\<close> is. In particular a
  member of a history message that passes the caught-up filter, is not expired, is not
  in the store, and whose own payload is a \<^verbatim>\<open>request-history\<close> or \<^verbatim>\<open>history\<close>
  object without these two properties, is added with \<^verbatim>\<open>userName\<close> and \<^verbatim>\<open>comment\<close>
  undefined.
\<close>
theorem add_ignores_payload_type:
  "(\<not> timestamp m < now - expireTimeMsec \<and> JSON_parse h (messageJson m) = Some (JObj kvs) \<and>
    (\<forall>c\<in>set s. commentId c \<noteq> systemSignature m) \<longrightarrow>
      add h now s m = Inr (sort_key c_timestamp
        (s @ [\<lparr> commentId = systemSignature m, c_senderPublicKey = senderPublicKey m,
                userName = map_of kvs ''userName'', c_timestamp = timestamp m,
                comment = map_of kvs ''comment'', chatMessage = m \<rparr>])))
   \<and> (JSON_parse h (messageJson hm) = Some (JObj hkvs) \<and>
      map_of hkvs ''type'' = Some (JStr ''history'') \<and>
      map_of hkvs ''comments'' = Some (JArr cs) \<and>
      map asChatMessage cs = map Some ms \<and>
      filter (\<lambda>c. \<not> num_lt (Number (timestamp c)) (getCaughtUpTimestamp now ls)) ms = [m] \<and>
      \<not> timestamp m < now - expireTimeMsec \<and>
      JSON_parse h (messageJson m) = Some (JObj kvs) \<and>
      (map_of kvs ''type'' = Some (JStr ''request-history'') \<or>
       map_of kvs ''type'' = Some (JStr ''history'')) \<and>
      map_of kvs ''userName'' = None \<and> map_of kvs ''comment'' = None \<and>
      (\<forall>c\<in>set s. commentId c \<noteq> systemSignature m) \<longrightarrow>
        applyDispatched h now s (dispatched (onMessage h now ls chatComments hm)) =
          Inr (sort_key c_timestamp
            (s @ [\<lparr> commentId = systemSignature m, c_senderPublicKey = senderPublicKey m,
                    userName = None, c_timestamp = timestamp m,
                    comment = None, chatMessage = m \<rparr>])))"
proof -
  have a: "add h now s m = Inr (sort_key c_timestamp
        (s @ [\<lparr> commentId = systemSignature m, c_senderPublicKey = senderPublicKey m,
                userName = map_of kvs ''userName'', c_timestamp = timestamp m,
                comment = map_of kvs ''comment'', chatMessage = m \<rparr>]))"
    if "\<not> timestamp m < now - expireTimeMsec" "JSON_parse h (messageJson m) = Some (JObj kvs)"
      "\<forall>c\<in>set s. commentId c \<noteq> systemSignature m"
    using add_accepts [OF that(1,2) _ that(3)] by simp
  show ?thesis
  proof (intro conjI impI)
    assume "\<not> timestamp m < now - expireTimeMsec \<and> JSON_parse h (messageJson m) = Some (JObj kvs) \<and>
      (\<forall>c\<in>set s. commentId c \<noteq> systemSignature m)"
    then show "add h now s m = Inr (sort_key c_timestamp
        (s @ [\<lparr> commentId = systemSignature m, c_senderPublicKey = senderPublicKey m,
                userName = map_of kvs ''userName'', c_timestamp = timestamp m,
                comment = map_of kvs ''comment'', chatMessage = m \<rparr>]))"
      using a by blast
  next
    assume b: "JSON_parse h (messageJson hm) = Some (JObj hkvs) \<and>
      map_of hkvs ''type'' = Some (JStr ''history'') \<and>
      map_of hkvs ''comments'' = Some (JArr cs) \<and>
      map asChatMessage cs = map Some ms \<and>
      filter (\<lambda>c. \<not> num_lt (Number (timestamp c)) (getCaughtUpTimestamp now ls)) ms = [m] \<and>
      \<not> timestamp m < now - expireTimeMsec \<and>
      JSON_parse h (messageJson m) = Some (JObj kvs) \<and>
      (map_of kvs ''type'' = Some (JStr ''request-history'') \<or>
       map_of kvs ''type'' = Some (JStr ''history'')) \<and>
      map_of kvs ''userName'' = None \<and> map_of kvs ''comment'' = None \<and>
      (\<forall>c\<in>set s. commentId c \<noteq> systemSignature m)"
    then have "dispatched (onMessage h now ls chatComments hm) = [Add m]"
      using onMessage_history [of h hm hkvs cs ms now ls chatComments] by simp
    moreover from b a have "add h now s m = Inr (sort_key c_timestamp
        (s @ [\<lparr> commentId = systemSignature m, c_senderPublicKey = senderPublicKey m,
                userName = None, c_timestamp = timestamp m,
                comment = None, chatMessage = m \<rparr>]))"
      by simp
    ultimately show "applyDispatched h now s (dispatched (onMessage h now ls chatComments hm)) =
          Inr (sort_key c_timestamp
            (s @ [\<lparr> commentId = systemSignature m, c_senderPublicKey = senderPublicKey m,
                    userName = None, c_timestamp = timestamp m,
                    comment = None, chatMessage = m \<rparr>]))"
      by (simp add: chatCommentsReducer_def)
  qed
qed

theorem add_ignores_payload_type_witness:
  "add exampleHost exampleNow [] exampleNested =
     Inr [\<lparr> commentId = ''sig2'', c_senderPublicKey = ''pk2'', userName = None,
             c_timestamp = 1699999990000, comment = None, chatMessage = exampleNested \<rparr>]
   \<and> JSON_parse exampleHost (messageJson exampleNested) =
       Some (JObj [(''type'', JStr ''request-history''), (''startTimestamp'', JNum 1699999000000)])
   \<and> applyDispatched exampleHost exampleNow []
        (dispatched (onMessage exampleHost exampleNow (Items [caughtUpKey \<mapsto> ascii ''1699999500000'']) []
           exampleHistory)) =
       Inr [\<lparr> commentId = ''sig2'', c_senderPublicKey = ''pk2'', userName = None,
               c_timestamp = 1699999990000, comment = None, chatMessage = exampleNested \<rparr>]"
proof -
  have g: "getCaughtUpTimestamp exampleNow (Items [caughtUpKey \<mapsto> ascii ''1699999500000''])
             = Number 1699999500000"
    by (rule example_watermark)
  have f: "filter (\<lambda>c. \<not> num_lt (Number (timestamp c))
              (getCaughtUpTimestamp exampleNow (Items [caughtUpKey \<mapsto> ascii ''1699999500000''])))
             [exampleNested, exampleOld] = [exampleNested]"
    by (simp add: g example_fields)
  have p: "JSON_parse exampleHost (messageJson exampleNested) =
       Some (JObj [(''type'', JStr ''request-history''), (''startTimestamp'', JNum 1699999000000)])"
    by (simp add: exampleHost_def exampleNested_def)
  have e: "\<not> timestamp exampleNested < exampleNow - expireTimeMsec"
    by (simp add: exampleNested_def exampleNow_def expireTimeMsec_def)
  from add_ignores_payload_type [where h = exampleHost and hm = exampleHistory and m = exampleNested
      and now = exampleNow and ls = "Items [caughtUpKey \<mapsto> ascii ''1699999500000'']" and s = "[]"
      and chatComments = "[]" and ms = "[exampleNested, exampleOld]"
      and kvs = "[(''type'', JStr ''request-history''), (''startTimestamp'', JNum 1699999000000)]"
      and hkvs = "[(''type'', JStr ''history''),
                 (''comments'', JArr [
                    JObj [(''systemSignature'', JStr ''sig2''), (''senderPublicKey'', JStr ''pk2''),
                          (''timestamp'', JNum 1699999990000),
                          (''messageJson'', JStr (messageJson exampleNested))],
                    JObj [(''systemSignature'', JStr ''sig3''), (''senderPublicKey'', JStr ''pk3''),
                          (''timestamp'', JNum 1699999000000),
                          (''messageJson'', JStr (messageJson exampleOld))]])]"
      and cs = "[JObj [(''systemSignature'', JStr ''sig2''), (''senderPublicKey'', JStr ''pk2''),
                          (''timestamp'', JNum 1699999990000),
                          (''messageJson'', JStr (messageJson exampleNested))],
                    JObj [(''systemSignature'', JStr ''sig3''), (''senderPublicKey'', JStr ''pk3''),
                          (''timestamp'', JNum 1699999000000),
                          (''messageJson'', JStr (messageJson exampleOld))]]"]
    example_history_parse example_typed f p e
  show ?thesis
    by (simp add: example_fields)
qed

end
